theory Spec2Isabelle
  imports Complex_Main "HOL-Library.Multiset"
begin

section \<open>Python values and text primitives\<close>

text \<open>
  Numbers that are Python floats in the source are exact rationals here: decimal literals
  such as \<open>0.35\<close> stand for \<open>35/100\<close>, and no rounding of binary floating point is
  modelled: a sum that is exactly 60 here can be 59.99999999999999 in the program. Text is a \<open>string\<close> of ASCII characters. The special float values that
  \<open>float()\<close> can produce are kept, because comparisons treat them differently.
\<close>

datatype pyfloat = Finite rat | PosInf | NegInf | NaN

text \<open>IEEE comparison \<open>a < b\<close>: false as soon as one side is NaN.\<close>

fun float_lt :: "pyfloat \<Rightarrow> pyfloat \<Rightarrow> bool" where
  "float_lt NaN _ = False"
| "float_lt _ NaN = False"
| "float_lt (Finite a) (Finite b) = (a < b)"
| "float_lt (Finite a) PosInf = True"
| "float_lt (Finite a) NegInf = False"
| "float_lt PosInf _ = False"
| "float_lt NegInf NegInf = False"
| "float_lt NegInf _ = True"

text \<open>IEEE comparison \<open>a <= b\<close>.\<close>

fun float_le :: "pyfloat \<Rightarrow> pyfloat \<Rightarrow> bool" where
  "float_le NaN _ = False"
| "float_le _ NaN = False"
| "float_le (Finite a) (Finite b) = (a \<le> b)"
| "float_le (Finite a) PosInf = True"
| "float_le (Finite a) NegInf = False"
| "float_le PosInf PosInf = True"
| "float_le PosInf _ = False"
| "float_le NegInf _ = True"

text \<open>
  The field \<open>years_experience: float | str\<close> is filled from a CSV cell without any
  conversion, so it can hold a string, a number, \<open>None\<close> or anything else. The builtin
  \<open>float()\<close> is not code of the repository: a string carries what \<open>float()\<close> makes of
  it (\<open>None\<close> when it raises \<open>ValueError\<close>), a number carries its value as a float
  and its \<open>str()\<close> rendering.
\<close>

datatype years_value =
    YNone
  | YText string "pyfloat option"
  | YNumber pyfloat string
  | YOther string

text \<open>
  \<open>float(years)\<close>: \<open>None\<close> stands for a raised \<open>ValueError\<close> or \<open>TypeError\<close>.
  An integer too large for a float, on which \<open>float()\<close> raises \<open>OverflowError\<close>, is
  not among the values of the model; a CSV cell cannot produce one.
\<close>

fun py_float :: "years_value \<Rightarrow> pyfloat option" where
  "py_float YNone = None"
| "py_float (YText s p) = p"
| "py_float (YNumber f r) = Some f"
| "py_float (YOther r) = None"

text \<open>\<open>str(years)\<close>, as an f-string renders the value.\<close>

fun py_str :: "years_value \<Rightarrow> string" where
  "py_str YNone = ''None''"
| "py_str (YText s p) = s"
| "py_str (YNumber f r) = r"
| "py_str (YOther r) = r"

text \<open>\<open>years == "Not stated"\<close>: only a string can be equal to a string.\<close>

fun is_not_stated :: "years_value \<Rightarrow> bool" where
  "is_not_stated (YText s p) = (s = ''Not stated'')"
| "is_not_stated _ = False"

definition is_upper :: "char \<Rightarrow> bool" where
  "is_upper c = (c \<in> set ''ABCDEFGHIJKLMNOPQRSTUVWXYZ'')"

definition is_lower :: "char \<Rightarrow> bool" where
  "is_lower c = (c \<in> set ''abcdefghijklmnopqrstuvwxyz'')"

definition is_digit :: "char \<Rightarrow> bool" where
  "is_digit c = (c \<in> set ''0123456789'')"

text \<open>
  Whitespace as \<open>\s\<close> sees it in the ASCII range. Beyond ASCII (a no-break space, an
  accented letter) Python's classes, word boundary and \<open>lower()\<close> follow Unicode and
  the model does not.
\<close>

definition is_space :: "char \<Rightarrow> bool" where
  "is_space c = (c \<in> set [CHR 0x09, CHR 0x0A, CHR 0x0B, CHR 0x0C, CHR 0x0D,
                             CHR 0x1C, CHR 0x1D, CHR 0x1E, CHR 0x1F, CHR 0x20])"

text \<open>A word character for \<open>\b\<close>: letter, digit or underscore.\<close>

definition is_word :: "char \<Rightarrow> bool" where
  "is_word c = (is_upper c \<or> is_lower c \<or> is_digit c \<or> c = CHR ''_'')"

definition lower_char :: "char \<Rightarrow> char" where
  "lower_char c =
     (case map_of (zip ''ABCDEFGHIJKLMNOPQRSTUVWXYZ'' ''abcdefghijklmnopqrstuvwxyz'') c of
        Some d \<Rightarrow> d
      | None \<Rightarrow> c)"

text \<open>\<open>str.lower()\<close> on ASCII text: only the letters A to Z change.\<close>

definition lower :: "string \<Rightarrow> string" where
  "lower s = map lower_char s"

fun startswith :: "string \<Rightarrow> string \<Rightarrow> bool" where
  "startswith [] text = True"
| "startswith (k # ks) [] = False"
| "startswith (k # ks) (c # cs) = (k = c \<and> startswith ks cs)"

text \<open>\<open>kw in text\<close> on strings: \<open>kw\<close> occurs somewhere in \<open>text\<close> as a contiguous run.\<close>

fun py_in :: "string \<Rightarrow> string \<Rightarrow> bool" where
  "py_in kw [] = (kw = [])"
| "py_in kw (c # cs) = (startswith kw (c # cs) \<or> py_in kw cs)"

text \<open>\<open>sep.join(parts)\<close>.\<close>

fun join :: "string \<Rightarrow> string list \<Rightarrow> string" where
  "join sep [] = []"
| "join sep [x] = x"
| "join sep (x # y # ys) = x @ sep @ join sep (y # ys)"

text \<open>
  \<open>list(set(xs))\<close>: the distinct elements in the iteration order of a hash set. That
  order is fixed by string hashes the program does not control; it is a parameter
  \<open>rank\<close> of the model, and the elements come out ordered by it.
\<close>

definition py_list_set :: "(string \<Rightarrow> nat) \<Rightarrow> string list \<Rightarrow> string list" where
  "py_list_set rank xs = sort_key rank (remdups xs)"

definition digit_char :: "nat \<Rightarrow> char" where
  "digit_char d = ''0123456789'' ! (d mod 10)"

fun str_of_nat :: "nat \<Rightarrow> string" where
  "str_of_nat n = (if n < 10 then [digit_char n] else str_of_nat (n div 10) @ [digit_char n])"

declare str_of_nat.simps [simp del]

text \<open>\<open>str(i)\<close> of an integer.\<close>

definition str_of_int :: "int \<Rightarrow> string" where
  "str_of_int i = (if i < 0 then ''-'' @ str_of_nat (nat (- i)) else str_of_nat (nat i))"

text \<open>\<open>int(x)\<close> of a float: truncation towards zero.\<close>

definition py_int :: "rat \<Rightarrow> int" where
  "py_int x = (if 0 \<le> x then \<lfloor>x\<rfloor> else \<lceil>x\<rceil>)"

text \<open>Rounding to the nearest integer, a tie going to the even neighbour.\<close>

definition round_half_even :: "rat \<Rightarrow> int" where
  "round_half_even x =
     (let f = \<lfloor>x\<rfloor>; d = x - of_int f
      in if d < 1/2 then f else if 1/2 < d then f + 1 else if even f then f else f + 1)"

text \<open>
  The format \<open>{x:.1f}\<close>: one digit after the point, rounded from the exact value
  (Python rounds the binary value of the float, which can differ in the last digit).
\<close>

definition fmt1 :: "rat \<Rightarrow> string" where
  "fmt1 x =
     (let t = round_half_even (\<bar>x\<bar> * 10)
      in (if x < 0 then ''-'' else '''') @ str_of_int (t div 10) @ ''.'' @ str_of_int (t mod 10))"

section \<open>Rule configuration (config/evaluation_criteria.py)\<close>

definition DIMENSION_WEIGHTS :: "(string \<times> rat) list" where
  "DIMENSION_WEIGHTS =
     [(''core_competencies'', 35/100),
      (''experience_results'', 25/100),
      (''collaboration_signals'', 20/100),
      (''cultural_practical_fit'', 15/100),
      (''education_other'', 5/100)]"

definition get_score_band :: "rat \<Rightarrow> string" where
  "get_score_band score =
     (if 85 \<le> score then ''Strong Fit''
      else if 70 \<le> score then ''Good Fit''
      else if 60 \<le> score then ''Borderline''
      else ''Reject'')"

definition REJECTION_THRESHOLD :: int where
  "REJECTION_THRESHOLD = 60"

definition CORE_COMPETENCY_ZERO_REJECT :: bool where
  "CORE_COMPETENCY_ZERO_REJECT = True"

definition REQUIRED_TOOLS :: "string list" where
  "REQUIRED_TOOLS =
     [''toon boom'', ''toon boom harmony'',
      ''after effects'', ''adobe after effects'', ''ae'',
      ''adobe animate'', ''animate cc'', ''flash'',
      ''spine'', ''spine 2d'', ''esoteric spine'',
      ''moho'', ''anime studio'',
      ''opentoonz'', ''krita'']"

definition PREFERRED_TOOLS :: "string list" where
  "PREFERRED_TOOLS =
     [''photoshop'', ''adobe photoshop'',
      ''unity'', ''unity3d'',
      ''dragonbones'',
      ''illustrator'',
      ''procreate'',
      ''tvpaint'']"

definition ANIMATION_SKILLS :: "string list" where
  "ANIMATION_SKILLS =
     [''character animation'',
      ''rigging'', ''rig'', ''skeletal animation'',
      ''vfx'', ''visual effects'', ''effects animation'',
      ''ui animation'', ''interface animation'',
      ''frame-by-frame'', ''frame by frame'',
      ''cutout animation'', ''cut-out'',
      ''motion graphics'',
      ''storyboard'']"

definition DOMAIN_EXPERIENCE :: "string list" where
  "DOMAIN_EXPERIENCE =
     [''gamedev'', ''game dev'', ''game development'',
      ''mobile games'', ''casual games'',
      ''slot'', ''casino'',
      ''cartoon'', ''animated series'',
      ''youtube'']"

definition COLLABORATION_KEYWORDS :: "string list" where
  "COLLABORATION_KEYWORDS =
     [''feedback'', ''iterate'', ''iteration'', ''revision'',
      ''learn'', ''learning'', ''adaptable'', ''flexible'', ''willing to learn'',
      ''independent'', ''self-directed'', ''autonomous'',
      ''team'', ''teamwork'', ''collaborate'', ''collaboration'',
      ''coordinate'', ''communication'',
      ''jira'', ''confluence'', ''slack'', ''git'', ''figma'']"

definition ENGLISH_LEVEL_SCORES :: "(string \<times> int) list" where
  "ENGLISH_LEVEL_SCORES =
     [(''Advanced'', 10),
      (''Intermediate'', 7),
      (''Basic'', 4),
      (''Not stated'', 5)]"

text \<open>
  \<open>score_experience_years\<close>. The result \<open>None\<close> is Python's \<open>None\<close>: the value the
  function returns when no branch of its \<open>if\<close>/\<open>elif\<close> chain is taken.
\<close>

definition score_experience_years :: "years_value \<Rightarrow> int option" where
  "score_experience_years years =
     (if is_not_stated years \<or> years = YNone then Some 5
      else case py_float years of
        None \<Rightarrow> Some 5
      | Some y \<Rightarrow>
          if float_le (Finite 1) y \<and> float_le y (Finite 3) then Some 10
          else if float_le (Finite (1/2)) y \<and> float_lt y (Finite 1) then Some 8
          else if float_lt (Finite 3) y \<and> float_le y (Finite 5) then Some 8
          else if float_lt (Finite 5) y then Some 6
          else if float_lt y (Finite (1/2)) then Some 5
          else None)"

section \<open>Regular expressions (the fragment the patterns use)\<close>

text \<open>
  A position in the searched text is the character just before it (none at the start)
  and the text still ahead. A pattern maps a start position to the positions where a
  match of it may end; \<open>re.search\<close> and a non-empty \<open>findall\<close> both mean that some
  start position has an end position.
\<close>

type_synonym pos = "char option \<times> string"

datatype cclass = Digit | Space

fun in_class :: "cclass \<Rightarrow> char \<Rightarrow> bool" where
  "in_class Digit c = is_digit c"
| "in_class Space c = is_space c"

datatype regex =
    Lit string
  | Cls cclass
  | Star cclass
  | Plus cclass
  | WordB
  | Seq regex regex
  | Alt regex regex
  | Opt regex

text \<open>Two characters agree; under \<open>re.IGNORECASE\<close> they agree up to case.\<close>

definition char_eq :: "bool \<Rightarrow> char \<Rightarrow> char \<Rightarrow> bool" where
  "char_eq icase c d = (if icase then lower_char c = lower_char d else c = d)"

fun lit_ends :: "bool \<Rightarrow> string \<Rightarrow> pos \<Rightarrow> pos list" where
  "lit_ends icase [] p = [p]"
| "lit_ends icase (c # cs) (prev, []) = []"
| "lit_ends icase (c # cs) (prev, d # ds) =
     (if char_eq icase c d then lit_ends icase cs (Some d, ds) else [])"

fun cls_ends :: "cclass \<Rightarrow> pos \<Rightarrow> pos list" where
  "cls_ends k (prev, []) = []"
| "cls_ends k (prev, d # ds) = (if in_class k d then [(Some d, ds)] else [])"

fun star_ends :: "cclass \<Rightarrow> pos \<Rightarrow> pos list" where
  "star_ends k (prev, []) = [(prev, [])]"
| "star_ends k (prev, d # ds) =
     (if in_class k d then star_ends k (Some d, ds) @ [(prev, d # ds)] else [(prev, d # ds)])"

text \<open>\<open>\b\<close>: exactly one of the two neighbours is a word character.\<close>

fun at_boundary :: "pos \<Rightarrow> bool" where
  "at_boundary (None, []) = False"
| "at_boundary (None, d # ds) = is_word d"
| "at_boundary (Some c, []) = is_word c"
| "at_boundary (Some c, d # ds) = (is_word c \<noteq> is_word d)"

fun re_ends :: "bool \<Rightarrow> regex \<Rightarrow> pos \<Rightarrow> pos list" where
  "re_ends icase (Lit s) p = lit_ends icase s p"
| "re_ends icase (Cls k) p = cls_ends k p"
| "re_ends icase (Star k) p = star_ends k p"
| "re_ends icase (Plus k) p = concat (map (star_ends k) (cls_ends k p))"
| "re_ends icase WordB p = (if at_boundary p then [p] else [])"
| "re_ends icase (Seq a b) p = concat (map (re_ends icase b) (re_ends icase a p))"
| "re_ends icase (Alt a b) p = re_ends icase a p @ re_ends icase b p"
| "re_ends icase (Opt a) p = re_ends icase a p @ [p]"

fun search_from :: "bool \<Rightarrow> regex \<Rightarrow> pos \<Rightarrow> bool" where
  "search_from icase r (prev, []) = (re_ends icase r (prev, []) \<noteq> [])"
| "search_from icase r (prev, d # ds) =
     (re_ends icase r (prev, d # ds) \<noteq> [] \<or> search_from icase r (Some d, ds))"

text \<open>\<open>re.search(pattern, text)\<close> finds a match.\<close>

definition re_search :: "bool \<Rightarrow> regex \<Rightarrow> string \<Rightarrow> bool" where
  "re_search icase r text = search_from icase r (None, text)"

text \<open>A sequence and an alternation of several parts.\<close>

fun seqs :: "regex list \<Rightarrow> regex" where
  "seqs [] = Lit []"
| "seqs [r] = r"
| "seqs (r # rs) = Seq r (seqs rs)"

fun alts :: "regex list \<Rightarrow> regex" where
  "alts [] = Lit []"
| "alts [r] = r"
| "alts (r # rs) = Alt r (alts rs)"

text \<open>
  \<open>DEMOGRAPHIC_PATTERNS\<close>, compiled with \<open>re.IGNORECASE\<close>:
  \<^verbatim>\<open>\b(\d{1,2})\s*(years?\s*old|y\.?o\.?)\b\<close>,
  \<^verbatim>\<open>\b(male|female|man|woman|boy|girl)\b\<close>,
  \<^verbatim>\<open>\b(married|single|divorced|widow)\b\<close>.
\<close>

definition DEMOGRAPHIC_PATTERNS :: "regex list" where
  "DEMOGRAPHIC_PATTERNS =
     [seqs [WordB, Cls Digit, Opt (Cls Digit), Star Space,
            Alt (seqs [Lit ''year'', Opt (Lit ''s''), Star Space, Lit ''old''])
                (seqs [Lit ''y'', Opt (Lit ''.''), Lit ''o'', Opt (Lit ''.'')]),
            WordB],
      seqs [WordB,
            alts [Lit ''male'', Lit ''female'', Lit ''man'', Lit ''woman'', Lit ''boy'', Lit ''girl''],
            WordB],
      seqs [WordB,
            alts [Lit ''married'', Lit ''single'', Lit ''divorced'', Lit ''widow''],
            WordB]]"

text \<open>
  The \<open>personal_patterns\<close> of \<open>scan_text\<close>:
  \<^verbatim>\<open>\bi am\s+(a\s+)?(male|female|man|woman)\b\<close>,
  \<^verbatim>\<open>\bmy (age|gender|religion|ethnicity)\b\<close>,
  \<^verbatim>\<open>\b(i('m| am)\s+)?\d{2}\s*years?\s*old\b\<close>.
\<close>

definition personal_patterns :: "regex list" where
  "personal_patterns =
     [seqs [WordB, Lit ''i am'', Plus Space, Opt (Seq (Lit ''a'') (Plus Space)),
            alts [Lit ''male'', Lit ''female'', Lit ''man'', Lit ''woman''],
            WordB],
      seqs [WordB, Lit ''my '',
            alts [Lit ''age'', Lit ''gender'', Lit ''religion'', Lit ''ethnicity''],
            WordB],
      seqs [WordB,
            Opt (seqs [Lit ''i'', Alt (Lit [CHR 0x27, CHR ''m'']) (Lit '' am''), Plus Space]),
            Cls Digit, Cls Digit, Star Space, Lit ''year'', Opt (Lit ''s''), Star Space,
            Lit ''old'', WordB]]"

section \<open>Bias guard (src/bias_guard.py)\<close>

definition scan_text :: "string \<Rightarrow> string list" where
  "scan_text text =
     (let text_lower = lower text;
          issues = map (\<lambda>pattern. ''Potential demographic data detected: pattern match'')
                     (filter (\<lambda>pattern. re_search True pattern text) DEMOGRAPHIC_PATTERNS);
          issues = issues @ map (\<lambda>pattern. ''Personal demographic statement detected'')
                     (filter (\<lambda>pattern. re_search False pattern text_lower) personal_patterns)
      in issues)"

definition check_candidate :: "(string \<Rightarrow> nat) \<Rightarrow> string \<Rightarrow> string \<Rightarrow> bool \<times> string list" where
  "check_candidate rank cv_text additional_info =
     (let combined_text = cv_text @ '' '' @ additional_info;
          issues = scan_text combined_text;
          issues = py_list_set rank issues
      in (0 < length issues, issues))"

section \<open>Data model (src/candidate.py)\<close>

record candidate_profile =
  cand_id :: string
  position :: string
  english_level :: string
  years_experience :: years_value
  cv_text :: string
  highlights :: string
  looking_for :: string
  additional_info :: string

record dimension_score =
  name :: string
  score :: rat
  weight :: rat
  evidence :: "string list"

definition weighted_score :: "dimension_score \<Rightarrow> rat" where
  "weighted_score ds = score ds * weight ds * 10"

text \<open>
  \<open>dimension_scores\<close> is a dict; it is kept as the list of its items in insertion
  order, which is the order \<open>.items()\<close> and \<open>.values()\<close> iterate in.
\<close>

record evaluation_result =
  candidate_id :: string
  dimension_scores :: "(string \<times> dimension_score) list"
  final_score :: rat
  band :: string
  status :: string
  shortlist_reasons :: "string list"
  concerns :: "string list"
  rejection_reasons :: "string list"
  bias_flags :: "string list"

section \<open>Evaluator (src/evaluator.py)\<close>

datatype error = TypeError | KeyError

text \<open>\<open>d[k]\<close> on a dict: a missing key raises \<open>KeyError\<close>.\<close>

definition dict_get :: "(string \<times> 'a) list \<Rightarrow> string \<Rightarrow> error + 'a" where
  "dict_get d k = (case map_of d k of None \<Rightarrow> Inl KeyError | Some v \<Rightarrow> Inr v)"

text \<open>Sequencing: an exception raised by the first step ends the call.\<close>

definition bind_result :: "error + 'a \<Rightarrow> ('a \<Rightarrow> error + 'b) \<Rightarrow> error + 'b" where
  "bind_result m f = (case m of Inl e \<Rightarrow> Inl e | Inr v \<Rightarrow> f v)"

definition combine_text :: "candidate_profile \<Rightarrow> string" where
  "combine_text candidate =
     (let parts = [cv_text candidate,
                   if highlights candidate \<noteq> ''Not stated'' then highlights candidate else [],
                   if additional_info candidate \<noteq> [] then additional_info candidate else []]
      in lower (join '' '' parts))"

definition score_core_competencies :: "(string \<Rightarrow> nat) \<Rightarrow> string \<Rightarrow> rat \<times> string list" where
  "score_core_competencies rank text =
     (let evidence = [];
          score = 0;
          required_found = filter (\<lambda>tool. py_in tool text) REQUIRED_TOOLS;
          (score, evidence) =
            (if required_found \<noteq> []
             then (score + 4,
                   evidence @ [''Required tool: '' @ join '', '' (take 3 (py_list_set rank required_found))])
             else (score, evidence));
          preferred_found = filter (\<lambda>tool. py_in tool text) PREFERRED_TOOLS;
          (score, evidence) =
            (if preferred_found \<noteq> []
             then (score + min 2 (of_nat (length preferred_found) * (5/10)),
                   evidence @ [''Additional tools: '' @ join '', '' (take 3 (py_list_set rank preferred_found))])
             else (score, evidence));
          skills_found = filter (\<lambda>skill. py_in skill text) ANIMATION_SKILLS;
          (score, evidence) =
            (if skills_found \<noteq> []
             then (score + min 4 (of_nat (length skills_found) * (6/10)),
                   evidence @ [''Animation skills: '' @ join '', '' (take 4 (py_list_set rank skills_found))])
             else (score, evidence));
          score = min 10 score;
          evidence = (if evidence = [] then evidence @ [''Limited technical signals detected'']
                      else evidence)
      in (score, evidence))"

definition project_indicators :: "string list" where
  "project_indicators =
     [''project'', ''released'', ''launched'', ''shipped'',
      ''created'', ''developed'', ''built'', ''worked on'',
      ''portfolio'', ''freelance'', ''client'']"

text \<open>
  \<open>_score_experience\<close>. When \<open>score_experience_years\<close> has returned \<open>None\<close>, each of
  \<open>None + 1\<close>, \<open>None + 0.5\<close> and \<open>min(10.0, None)\<close> raises \<open>TypeError\<close>, and one of
  them is reached on every path.
\<close>

definition score_experience :: "candidate_profile \<Rightarrow> string \<Rightarrow> error + (rat \<times> string list)" where
  "score_experience candidate text =
     (let evidence = [];
          years_score = score_experience_years (years_experience candidate);
          evidence = (if \<not> is_not_stated (years_experience candidate)
                      then evidence @ [''Experience: '' @ py_str (years_experience candidate) @ '' years'']
                      else evidence);
          project_count = length (filter (\<lambda>ind. py_in ind text) project_indicators);
          domain_found = filter (\<lambda>domain. py_in domain text) DOMAIN_EXPERIENCE
      in case years_score of
           None \<Rightarrow> Inl TypeError
         | Some ys \<Rightarrow>
             (let years_score = of_int ys;
                  (years_score, evidence) =
                    (if 3 \<le> project_count
                     then (min 10 (years_score + 1), evidence @ [''Multiple project references found''])
                     else (years_score, evidence));
                  (years_score, evidence) =
                    (if domain_found \<noteq> []
                     then (min 10 (years_score + 5/10),
                           evidence @ [''Domain: '' @ join '', '' (take 3 domain_found)])
                     else (years_score, evidence));
                  evidence = (if evidence = [] then evidence @ [''Experience details not clearly stated'']
                              else evidence)
              in Inr (min 10 years_score, evidence)))"

text \<open>
  The \<open>team_patterns\<close> of \<open>_score_collaboration\<close>: \<^verbatim>\<open>team of \d+\<close>,
  \<^verbatim>\<open>worked with\<close>, \<^verbatim>\<open>collaborated\<close>, \<^verbatim>\<open>mentored\<close>, \<^verbatim>\<open>supervised\<close>.
\<close>

definition team_patterns :: "regex list" where
  "team_patterns =
     [Seq (Lit ''team of '') (Plus Digit),
      Lit ''worked with'',
      Lit ''collaborated'',
      Lit ''mentored'',
      Lit ''supervised'']"

definition score_collaboration :: "string \<Rightarrow> rat \<times> string list" where
  "score_collaboration text =
     (let evidence = [];
          score = 5;
          collab_found = filter (\<lambda>keyword. py_in keyword text) COLLABORATION_KEYWORDS;
          (score, evidence) =
            (if collab_found \<noteq> []
             then (score + min 3 (of_nat (length collab_found) * (4/10)),
                   evidence @ [''Collaboration signals: '' @ join '', '' (take 4 collab_found)])
             else (score, evidence));
          (score, evidence) =
            (if list_ex (\<lambda>pattern. re_search False pattern text) team_patterns
             then (min 10 (score + 5/10), evidence @ [''Direct team experience mentioned''])
             else (score, evidence));
          evidence = (if evidence = []
                      then evidence @ [''Limited collaboration signals (common for individual contributors)'']
                      else evidence)
      in (min 10 score, evidence))"

definition score_cultural_fit :: "candidate_profile \<Rightarrow> string \<Rightarrow> rat \<times> string list" where
  "score_cultural_fit candidate text =
     (let evidence = [];
          score = 6;
          english_score = (case map_of ENGLISH_LEVEL_SCORES (english_level candidate) of
                             Some v \<Rightarrow> v | None \<Rightarrow> 5);
          (score, evidence) =
            (if english_level candidate \<noteq> ''Not stated''
             then (score + (of_int english_score - 5) * (3/10),
                   evidence @ [''English: '' @ english_level candidate])
             else (score, evidence));
          remote_keywords = [''remote'', ''flexible'', ''work from home'', ''wfh''];
          (score, evidence) =
            (if list_ex (\<lambda>kw. py_in kw text) remote_keywords
             then (min 10 (score + 5/10), evidence @ [''Remote work experience/preference''])
             else (score, evidence));
          (score, evidence) =
            (if list_ex (\<lambda>word. py_in word text) [''deadline'', ''pressure'', ''fast-paced'']
             then (min 10 (score + 5/10), evidence @ [''Deadline awareness mentioned''])
             else (score, evidence));
          evidence = (if looking_for candidate \<noteq> ''Not stated''
                      then evidence @ [''Stated job preferences available'']
                      else evidence);
          evidence = (if evidence = [] then evidence @ [''Standard fit indicators''] else evidence)
      in (min 10 score, evidence))"

definition edu_keywords :: "string list" where
  "edu_keywords =
     [''degree'', ''bachelor'', ''master'', ''university'', ''college'',
      ''course'', ''certificate'', ''certification'', ''diploma'',
      ''school'', ''academy'', ''bootcamp'']"

definition score_education :: "(string \<Rightarrow> nat) \<Rightarrow> string \<Rightarrow> rat \<times> string list" where
  "score_education rank text =
     (let evidence = [];
          score = 5;
          edu_found = filter (\<lambda>kw. py_in kw text) edu_keywords;
          (score, evidence) =
            (if edu_found \<noteq> []
             then (score + min 3 (of_nat (length edu_found) * (5/10)),
                   evidence @ [''Education signals: '' @ join '', '' (take 3 (py_list_set rank edu_found))])
             else (score, evidence));
          (score, evidence) =
            (if list_ex (\<lambda>word. py_in word text) [''animation course'', ''artcraft'', ''motion academy'']
             then (min 10 (score + 1), evidence @ [''Relevant animation training''])
             else (score, evidence));
          evidence = (if evidence = [] then evidence @ [''No formal education stated (not penalized)'']
                      else evidence)
      in (min 10 score, evidence))"

text \<open>
  \<open>_determine_status\<close>. \<open>sorted(..., key=score, reverse=True)\<close> is a stable sort by
  descending score: items of equal score keep their dict order.
\<close>

definition determine_status ::
  "rat \<Rightarrow> string \<Rightarrow> (string \<times> dimension_score) list \<Rightarrow> rat
     \<Rightarrow> string \<times> string list \<times> string list \<times> string list" where
  "determine_status final_score' band' dimension_scores' core_score =
     (if CORE_COMPETENCY_ZERO_REJECT \<and> core_score = 0
      then (''Rejected'', [], [],
            [''Core competencies do not match required role stack (no relevant tools detected)''])
      else if final_score' < of_int REJECTION_THRESHOLD
      then (let rejection_reasons =
                  [''Score '' @ fmt1 final_score' @ '' below threshold (''
                     @ str_of_int REJECTION_THRESHOLD @ '')''];
                rejection_reasons = rejection_reasons @
                  map (\<lambda>(key, ds). ''Weak '' @ name ds @ '': '' @ fmt1 (score ds) @ ''/10'')
                    (filter (\<lambda>(key, ds). score ds < 4) dimension_scores')
            in (''Rejected'', [], [], rejection_reasons))
      else (let status = ''Shortlisted'';
                sorted_dims = sort_key (\<lambda>x. - score (snd x)) dimension_scores';
                shortlist_reasons =
                  map (\<lambda>(key, ds).
                         name ds @ '' ('' @ str_of_int (py_int (weight ds * 100)) @ ''%): ''
                           @ (case evidence ds of [] \<Rightarrow> [] | e # es \<Rightarrow> e))
                    (filter (\<lambda>(key, ds). 6 \<le> score ds) (take 3 sorted_dims));
                concerns =
                  map (\<lambda>(key, ds). ''Limited '' @ lower (name ds) @ '' signals'')
                    (filter (\<lambda>(key, ds). score ds < 5) dimension_scores')
            in (status, shortlist_reasons, concerns, [])))"

definition evaluate :: "(string \<Rightarrow> nat) \<Rightarrow> candidate_profile \<Rightarrow> error + evaluation_result" where
  "evaluate rank candidate =
     (let (is_flagged, bias_issues) =
            check_candidate rank (cv_text candidate) (additional_info candidate);
          full_text = combine_text candidate;
          (core_score, core_evidence) = score_core_competencies rank full_text
      in bind_result (dict_get DIMENSION_WEIGHTS ''core_competencies'') (\<lambda>core_weight.
         bind_result (score_experience candidate full_text) (\<lambda>(exp_score, exp_evidence).
         bind_result (dict_get DIMENSION_WEIGHTS ''experience_results'') (\<lambda>exp_weight.
         let (collab_score, collab_evidence) = score_collaboration full_text
         in bind_result (dict_get DIMENSION_WEIGHTS ''collaboration_signals'') (\<lambda>collab_weight.
         let (fit_score, fit_evidence) = score_cultural_fit candidate full_text
         in bind_result (dict_get DIMENSION_WEIGHTS ''cultural_practical_fit'') (\<lambda>fit_weight.
         let (edu_score, edu_evidence) = score_education rank full_text
         in bind_result (dict_get DIMENSION_WEIGHTS ''education_other'') (\<lambda>edu_weight.
         let dimension_scores =
               [(''core_competencies'',
                 \<lparr>name = ''Core Competencies'', score = core_score,
                  weight = core_weight, evidence = core_evidence\<rparr>),
                (''experience_results'',
                 \<lparr>name = ''Experience & Results'', score = exp_score,
                  weight = exp_weight, evidence = exp_evidence\<rparr>),
                (''collaboration_signals'',
                 \<lparr>name = ''Collaboration Signals'', score = collab_score,
                  weight = collab_weight, evidence = collab_evidence\<rparr>),
                (''cultural_practical_fit'',
                 \<lparr>name = ''Cultural & Practical Fit'', score = fit_score,
                  weight = fit_weight, evidence = fit_evidence\<rparr>),
                (''education_other'',
                 \<lparr>name = ''Education & Other Signals'', score = edu_score,
                  weight = edu_weight, evidence = edu_evidence\<rparr>)];
             final_score = sum_list (map (\<lambda>(key, ds). weighted_score ds) dimension_scores);
             band = get_score_band final_score;
             (status, shortlist_reasons, concerns, rejection_reasons) =
               determine_status final_score band dimension_scores core_score;
             status = (if is_flagged then ''Flagged for Review'' else status)
         in Inr \<lparr>candidate_id = cand_id candidate,
                 dimension_scores = dimension_scores,
                 final_score = final_score,
                 band = band,
                 status = status,
                 shortlist_reasons = shortlist_reasons,
                 concerns = concerns,
                 rejection_reasons = rejection_reasons,
                 bias_flags = bias_issues\<rparr>)))))))"

section \<open>Named inputs and auxiliary notions used in the statements\<close>

text \<open>
  The dimension table that \<open>evaluate\<close> builds, given the two results of
  \<open>_score_experience\<close>; lemma \<open>evaluate_Inr\<close> shows that every returned result
  carries exactly this table.
\<close>

definition built_dimension_scores ::
  "(string \<Rightarrow> nat) \<Rightarrow> candidate_profile \<Rightarrow> rat \<Rightarrow> string list
     \<Rightarrow> (string \<times> dimension_score) list" where
  "built_dimension_scores rank c es ee =
     [(''core_competencies'',
       \<lparr>name = ''Core Competencies'', score = fst (score_core_competencies rank (combine_text c)),
        weight = 35/100, evidence = snd (score_core_competencies rank (combine_text c))\<rparr>),
      (''experience_results'',
       \<lparr>name = ''Experience & Results'', score = es, weight = 25/100, evidence = ee\<rparr>),
      (''collaboration_signals'',
       \<lparr>name = ''Collaboration Signals'', score = fst (score_collaboration (combine_text c)),
        weight = 20/100, evidence = snd (score_collaboration (combine_text c))\<rparr>),
      (''cultural_practical_fit'',
       \<lparr>name = ''Cultural & Practical Fit'', score = fst (score_cultural_fit c (combine_text c)),
        weight = 15/100, evidence = snd (score_cultural_fit c (combine_text c))\<rparr>),
      (''education_other'',
       \<lparr>name = ''Education & Other Signals'', score = fst (score_education rank (combine_text c)),
        weight = 5/100, evidence = snd (score_education rank (combine_text c))\<rparr>)]"

text \<open>\<open>result.dimension_scores[key].score\<close>, when the key is present.\<close>

definition dim_score :: "evaluation_result \<Rightarrow> string \<Rightarrow> rat option" where
  "dim_score r key = map_option score (map_of (dimension_scores r) key)"

text \<open>The candidate of the scenario: one tool, rigging, a team, two years, advanced English.\<close>

definition scenario_candidate :: candidate_profile where
  "scenario_candidate =
     \<lparr>cand_id = ''1'', position = [], english_level = ''Advanced'',
      years_experience = YNumber (Finite 2) ''2'',
      cv_text = ''after effects, rigging, collaborated with team, 2 years experience, fluent English'',
      highlights = [], looking_for = [], additional_info = []\<rparr>"

text \<open>A candidate without any text, with the sentinel in every structured field.\<close>

definition empty_candidate :: candidate_profile where
  "empty_candidate =
     \<lparr>cand_id = ''1'', position = [], english_level = ''Not stated'',
      years_experience = YText ''Not stated'' None,
      cv_text = [], highlights = ''Not stated'', looking_for = ''Not stated'',
      additional_info = []\<rparr>"

text \<open>A candidate whose years cell was empty in the CSV file: pandas reads it as NaN.\<close>

definition nan_candidate :: candidate_profile where
  "nan_candidate =
     \<lparr>cand_id = ''1'', position = ''2D Animator'', english_level = ''Advanced'',
      years_experience = YNumber NaN ''nan'',
      cv_text = ''after effects, rigging'',
      highlights = [], looking_for = [], additional_info = []\<rparr>"

text \<open>A candidate whose additional information states age and gender.\<close>

definition flagged_candidate :: candidate_profile where
  "flagged_candidate =
     \<lparr>cand_id = ''7'', position = ''2D Animator'', english_level = ''Intermediate'',
      years_experience = YNumber (Finite 4) ''4'',
      cv_text = ''Spine and After Effects, character animation, shipped two mobile games'',
      highlights = ''Not stated'', looking_for = ''Not stated'',
      additional_info = ''I am a 28 years old woman''\<rparr>"

text \<open>
  The wording of the specification for the reasons of a shortlisted candidate, to be
  compared with what \<open>determine_status\<close> computes: a ranking of the dimensions by
  descending score is a rearrangement of them in which no later entry has a higher
  score; a shortlist reason combines the dimension name, its weight percentage and its
  first evidence string; a concern reads "Limited <dimension> signals".
\<close>

definition ranked_descending ::
  "(string \<times> dimension_score) list \<Rightarrow> (string \<times> dimension_score) list \<Rightarrow> bool" where
  "ranked_descending dims ranked \<longleftrightarrow>
     mset ranked = mset dims \<and> sorted_wrt (\<lambda>a b. score (snd b) \<le> score (snd a)) ranked"

definition spec_shortlist_reason :: "dimension_score \<Rightarrow> string" where
  "spec_shortlist_reason ds =
     name ds @ '' ('' @ str_of_int (py_int (weight ds * 100)) @ ''%): '' @ hd (evidence ds)"

definition spec_concern :: "dimension_score \<Rightarrow> string" where
  "spec_concern ds = ''Limited '' @ lower (name ds) @ '' signals''"

text \<open>A candidate whose text is a first name that happens to contain "ae".\<close>

definition michael_candidate :: candidate_profile where
  "michael_candidate =
     \<lparr>cand_id = ''3'', position = ''2D Animator'', english_level = ''Advanced'',
      years_experience = YNumber (Finite 2) ''2'',
      cv_text = ''Michael'',
      highlights = ''Not stated'', looking_for = ''Not stated'', additional_info = []\<rparr>"

text \<open>
  The wording of the specification for keyword detection, to be compared with what the
  scorers compute: the keywords of a list that occur in the text as a contiguous run of
  characters, whatever surrounds the run ("raw substring containment").
\<close>

definition matched :: "string list \<Rightarrow> string \<Rightarrow> string list" where
  "matched kws tx = filter (\<lambda>kw. \<exists>pre suf. tx = pre @ kw @ suf) kws"

section \<open>Properties\<close>

lemma score_experience_years_None_iff:
  "score_experience_years years = None \<longleftrightarrow>
     \<not> is_not_stated years \<and> years \<noteq> YNone \<and> py_float years = Some NaN"
proof (cases "py_float years")
  case None
  then show ?thesis by (simp add: score_experience_years_def)
next
  case (Some y)
  then show ?thesis
    by (cases y) (auto simp: score_experience_years_def)
qed

subsection \<open>Text primitives\<close>

lemma startswith_iff: "startswith kw tx \<longleftrightarrow> (\<exists>suf. tx = kw @ suf)"
  by (induction kw tx rule: startswith.induct) auto

lemma py_in_iff: "py_in kw tx \<longleftrightarrow> (\<exists>pre suf. tx = pre @ kw @ suf)"
proof (induction tx)
  case Nil
  then show ?case by simp
next
  case (Cons c cs)
  show ?case
  proof
    assume "py_in kw (c # cs)"
    then consider "startswith kw (c # cs)" | "py_in kw cs" by auto
    then show "\<exists>pre suf. c # cs = pre @ kw @ suf"
    proof cases
      case 1
      then obtain suf where "c # cs = kw @ suf" by (auto simp: startswith_iff)
      then have "c # cs = [] @ kw @ suf" by simp
      then show ?thesis by blast
    next
      case 2
      then obtain pre suf where "cs = pre @ kw @ suf" using Cons.IH by blast
      then have "c # cs = (c # pre) @ kw @ suf" by simp
      then show ?thesis by blast
    qed
  next
    assume "\<exists>pre suf. c # cs = pre @ kw @ suf"
    then obtain pre suf where eq: "c # cs = pre @ kw @ suf" by blast
    show "py_in kw (c # cs)"
    proof (cases pre)
      case Nil
      then have "startswith kw (c # cs)" using eq by (auto simp: startswith_iff)
      then show ?thesis by simp
    next
      case (Cons p ps)
      then have "cs = ps @ kw @ suf" using eq by simp
      then have "py_in kw cs" using Cons.IH by blast
      then show ?thesis by simp
    qed
  qed
qed

subsection \<open>The five scorers: range of the score, evidence never empty\<close>

lemma core_range:
  "0 \<le> fst (score_core_competencies rank tx) \<and> fst (score_core_competencies rank tx) \<le> 10"
  by (auto simp add: score_core_competencies_def Let_def min_def)

lemma core_evidence: "snd (score_core_competencies rank tx) \<noteq> []"
  by (simp add: score_core_competencies_def Let_def)

lemma core_rank_independent:
  "fst (score_core_competencies rank tx) = fst (score_core_competencies rank' tx)"
  by (simp add: score_core_competencies_def Let_def)

lemma collab_range:
  "5 \<le> fst (score_collaboration tx) \<and> fst (score_collaboration tx) \<le> 10"
  by (auto simp add: score_collaboration_def Let_def min_def)

lemma collab_evidence: "snd (score_collaboration tx) \<noteq> []"
  by (simp add: score_collaboration_def Let_def)

lemma edu_range:
  "5 \<le> fst (score_education rank tx) \<and> fst (score_education rank tx) \<le> 10"
  by (auto simp add: score_education_def Let_def min_def)

lemma edu_evidence: "snd (score_education rank tx) \<noteq> []"
  by (simp add: score_education_def Let_def)

lemma edu_rank_independent:
  "fst (score_education rank tx) = fst (score_education rank' tx)"
  by (simp add: score_education_def Let_def)

lemma english_cases:
  "(case map_of ENGLISH_LEVEL_SCORES lvl of Some v \<Rightarrow> v | None \<Rightarrow> 5) \<in> {10, 7, 4, 5}"
  by (simp add: ENGLISH_LEVEL_SCORES_def)

lemma fit_range:
  "57/10 \<le> fst (score_cultural_fit c tx) \<and> fst (score_cultural_fit c tx) \<le> 10"
  using english_cases [of "english_level c"]
  by (auto simp add: score_cultural_fit_def Let_def)

lemma fit_evidence: "snd (score_cultural_fit c tx) \<noteq> []"
  by (simp add: score_cultural_fit_def Let_def)

lemma years_values:
  "score_experience_years y = Some v \<Longrightarrow> v = 5 \<or> v = 6 \<or> v = 8 \<or> v = 10"
  by (auto simp: score_experience_years_def split: option.splits if_splits)

lemma score_experience_Inl:
  "score_experience c tx = Inl e \<longleftrightarrow>
     e = TypeError \<and> score_experience_years (years_experience c) = None"
  by (auto simp: score_experience_def Let_def split: option.splits prod.splits)

lemma score_experience_Inr:
  assumes "score_experience c tx = Inr (s, ev)"
  shows "5 \<le> s \<and> s \<le> 10 \<and> ev \<noteq> []"
proof -
  obtain v where v: "score_experience_years (years_experience c) = Some v"
    using assms by (cases "score_experience_years (years_experience c)")
      (auto simp: score_experience_def Let_def)
  from years_values [OF v] have "(5::rat) \<le> of_int v \<and> (of_int v :: rat) \<le> 10" by auto
  then show ?thesis
    using assms v by (auto simp: score_experience_def Let_def split: if_splits)
qed

subsection \<open>The shape of a call of evaluate\<close>

text \<open>
  \<open>evaluate\<close> raises exactly when the years lookup has returned \<open>None\<close>, and then it
  raises \<open>TypeError\<close>; in every other case it returns a result.
\<close>

lemma evaluate_Inl:
  "evaluate rank c = Inl e \<longleftrightarrow>
     e = TypeError \<and> score_experience_years (years_experience c) = None"
  using score_experience_Inl [of c "combine_text c" e]
  by (auto simp: evaluate_def Let_def bind_result_def dict_get_def DIMENSION_WEIGHTS_def
      split: prod.splits sum.splits)

lemma evaluate_returns:
  assumes "score_experience_years (years_experience c) \<noteq> None"
  shows "\<exists>r. evaluate rank c = Inr r"
proof (cases "evaluate rank c")
  case (Inl e)
  then show ?thesis using assms by (simp add: evaluate_Inl)
next
  case (Inr r)
  then show ?thesis by blast
qed

lemma evaluate_Inr:
  assumes "evaluate rank c = Inr r"
  obtains es ee st where
    "score_experience c (combine_text c) = Inr (es, ee)"
    "dimension_scores r = built_dimension_scores rank c es ee"
    "final_score r = sum_list (map (\<lambda>(key, ds). weighted_score ds) (dimension_scores r))"
    "band r = get_score_band (final_score r)"
    "determine_status (final_score r) (band r) (dimension_scores r)
       (fst (score_core_competencies rank (combine_text c)))
       = (st, shortlist_reasons r, concerns r, rejection_reasons r)"
    "status r = (if fst (check_candidate rank (cv_text c) (additional_info c))
                 then ''Flagged for Review'' else st)"
    "bias_flags r = snd (check_candidate rank (cv_text c) (additional_info c))"
    "candidate_id r = cand_id c"
  using assms
  by (auto simp: evaluate_def Let_def bind_result_def dict_get_def DIMENSION_WEIGHTS_def
      built_dimension_scores_def split: prod.splits sum.splits)

lemma built_scores_range:
  assumes "score_experience c (combine_text c) = Inr (es, ee)"
  shows "\<forall>(key, ds) \<in> set (built_dimension_scores rank c es ee).
           0 \<le> score ds \<and> score ds \<le> 10 \<and> evidence ds \<noteq> []"
  using score_experience_Inr [OF assms]
    core_range [of rank "combine_text c"] core_evidence [of rank "combine_text c"]
    collab_range [of "combine_text c"] collab_evidence [of "combine_text c"]
    fit_range [of c "combine_text c"] fit_evidence [of c "combine_text c"]
    edu_range [of rank "combine_text c"] edu_evidence [of rank "combine_text c"]
  by (simp add: built_dimension_scores_def)

lemma built_final_score_range:
  assumes "score_experience c (combine_text c) = Inr (es, ee)"
  shows "0 \<le> sum_list (map (\<lambda>(key, ds). weighted_score ds) (built_dimension_scores rank c es ee))
       \<and> sum_list (map (\<lambda>(key, ds). weighted_score ds) (built_dimension_scores rank c es ee)) \<le> 100"
  using score_experience_Inr [OF assms]
    core_range [of rank "combine_text c"] collab_range [of "combine_text c"]
    fit_range [of c "combine_text c"] edu_range [of rank "combine_text c"]
  by (simp add: built_dimension_scores_def weighted_score_def)

subsection \<open>Concrete inputs\<close>

lemma scenario_years: "score_experience_years (years_experience scenario_candidate) = Some 10"
  by (simp add: scenario_candidate_def score_experience_years_def)

lemma empty_years: "score_experience_years (years_experience empty_candidate) = Some 5"
  by (simp add: empty_candidate_def score_experience_years_def)

lemma empty_text: "combine_text empty_candidate = ''  ''"
  by (simp add: combine_text_def empty_candidate_def lower_def lower_char_def)

lemma empty_core: "score_core_competencies rank ''  '' = (0, [''Limited technical signals detected''])"
  by (simp add: score_core_competencies_def Let_def REQUIRED_TOOLS_def PREFERRED_TOOLS_def
      ANIMATION_SKILLS_def)

lemma empty_experience:
  "score_experience empty_candidate ''  '' = Inr (5, [''Experience details not clearly stated''])"
  by (simp add: score_experience_def Let_def empty_years project_indicators_def
      DOMAIN_EXPERIENCE_def) (simp add: empty_candidate_def)

lemma empty_collab:
  "score_collaboration ''  '' =
     (5, [''Limited collaboration signals (common for individual contributors)''])"
  by (simp add: score_collaboration_def Let_def COLLABORATION_KEYWORDS_def team_patterns_def
      re_search_def char_eq_def)

lemma empty_fit: "score_cultural_fit empty_candidate ''  '' = (6, [''Standard fit indicators''])"
  by (simp add: score_cultural_fit_def Let_def empty_candidate_def ENGLISH_LEVEL_SCORES_def)

lemma empty_edu:
  "score_education rank ''  '' = (5, [''No formal education stated (not penalized)''])"
  by (simp add: score_education_def Let_def edu_keywords_def)

subsection \<open>Claims about the aggregate and the evidence\<close>

text \<open>
  C6. The final score of every returned result is the sum, over the five fixed
  dimensions, of score times weight times 10; the five weights are 0.35, 0.25, 0.20, 0.15
  and 0.05 and add up to exactly 1; every dimension score lies between 0 and 10, and the
  final score therefore between 0 and 100. A result is returned for every candidate
  except when the years lookup has returned \<open>None\<close> (a NaN years value), where the
  call raises \<open>TypeError\<close>.
\<close>

theorem final_score_weighted_sum:
  "sum_list (map snd DIMENSION_WEIGHTS) = 1 \<and>
   (case evaluate rank c of
      Inl e \<Rightarrow> e = TypeError \<and> score_experience_years (years_experience c) = None
    | Inr r \<Rightarrow>
        map fst (dimension_scores r) = map fst DIMENSION_WEIGHTS \<and>
        map (\<lambda>(key, ds). weight ds) (dimension_scores r) = map snd DIMENSION_WEIGHTS \<and>
        final_score r = sum_list (map (\<lambda>(key, ds). score ds * weight ds * 10) (dimension_scores r)) \<and>
        (\<forall>(key, ds) \<in> set (dimension_scores r). 0 \<le> score ds \<and> score ds \<le> 10) \<and>
        0 \<le> final_score r \<and> final_score r \<le> 100)"
proof -
  have w: "sum_list (map snd DIMENSION_WEIGHTS) = 1"
    by (simp add: DIMENSION_WEIGHTS_def)
  show ?thesis
  proof (cases "evaluate rank c")
    case (Inl e)
    then have "e = TypeError \<and> score_experience_years (years_experience c) = None"
      by (simp add: evaluate_Inl)
    then show ?thesis using Inl w by simp
  next
    case (Inr r)
    from evaluate_Inr [OF Inr] obtain es ee where
      ex: "score_experience c (combine_text c) = Inr (es, ee)" and
      ds: "dimension_scores r = built_dimension_scores rank c es ee" and
      fs: "final_score r = sum_list (map (\<lambda>(key, ds). weighted_score ds) (dimension_scores r))"
      by blast
    have keys: "map fst (dimension_scores r) = map fst DIMENSION_WEIGHTS"
      by (simp add: ds built_dimension_scores_def DIMENSION_WEIGHTS_def)
    have weights: "map (\<lambda>(key, ds). weight ds) (dimension_scores r) = map snd DIMENSION_WEIGHTS"
      by (simp add: ds built_dimension_scores_def DIMENSION_WEIGHTS_def)
    have total: "final_score r =
        sum_list (map (\<lambda>(key, ds). score ds * weight ds * 10) (dimension_scores r))"
      by (simp add: fs weighted_score_def)
    have each: "\<forall>(key, ds) \<in> set (dimension_scores r). 0 \<le> score ds \<and> score ds \<le> 10"
      using built_scores_range [OF ex, of rank] by (auto simp: ds)
    have bounds: "0 \<le> final_score r \<and> final_score r \<le> 100"
      using built_final_score_range [OF ex, of rank] by (simp add: fs ds)
    show ?thesis using Inr w keys weights total each bounds by simp
  qed
qed

theorem final_score_weighted_sum_witness:
  "\<exists>r. evaluate length scenario_candidate = Inr r \<and>
       (\<forall>(key, ds) \<in> set (dimension_scores r). 0 \<le> score ds \<and> score ds \<le> 10) \<and>
       0 \<le> final_score r \<and> final_score r \<le> 100"
proof -
  obtain r where r: "evaluate length scenario_candidate = Inr r"
    using evaluate_returns [where c = scenario_candidate and rank = length] scenario_years by auto
  show ?thesis
    using final_score_weighted_sum [where c = scenario_candidate and rank = length] r by simp
qed

text \<open>
  C8. In every returned result each of the five evidence lists is non-empty. For the
  candidate without any text, where no scoring rule fires, each list holds exactly the
  one fallback string of its dimension. A result is returned for every candidate except
  when the years lookup has returned \<open>None\<close>.
\<close>

theorem evidence_never_empty:
  "(case evaluate rank c of
      Inl e \<Rightarrow> e = TypeError \<and> score_experience_years (years_experience c) = None
    | Inr r \<Rightarrow>
        length (dimension_scores r) = 5 \<and>
        (\<forall>(key, ds) \<in> set (dimension_scores r). evidence ds \<noteq> [])) \<and>
   (\<exists>r. evaluate rank empty_candidate = Inr r \<and>
        map (\<lambda>(key, ds). evidence ds) (dimension_scores r) =
          [[''Limited technical signals detected''],
           [''Experience details not clearly stated''],
           [''Limited collaboration signals (common for individual contributors)''],
           [''Standard fit indicators''],
           [''No formal education stated (not penalized)'']])"
proof -
  have general: "case evaluate rank c of
      Inl e \<Rightarrow> e = TypeError \<and> score_experience_years (years_experience c) = None
    | Inr r \<Rightarrow>
        length (dimension_scores r) = 5 \<and>
        (\<forall>(key, ds) \<in> set (dimension_scores r). evidence ds \<noteq> [])"
  proof (cases "evaluate rank c")
    case (Inl e)
    then have "e = TypeError \<and> score_experience_years (years_experience c) = None"
      by (simp add: evaluate_Inl)
    then show ?thesis using Inl by simp
  next
    case (Inr r)
    from evaluate_Inr [OF Inr] obtain es ee where
      ex: "score_experience c (combine_text c) = Inr (es, ee)" and
      ds: "dimension_scores r = built_dimension_scores rank c es ee"
      by blast
    have five: "length (dimension_scores r) = 5"
      by (simp add: ds built_dimension_scores_def)
    have each: "\<forall>(key, ds) \<in> set (dimension_scores r). evidence ds \<noteq> []"
      using built_scores_range [OF ex, of rank] by (auto simp: ds)
    show ?thesis using Inr five each by simp
  qed
  have specific: "\<exists>r. evaluate rank empty_candidate = Inr r \<and>
        map (\<lambda>(key, ds). evidence ds) (dimension_scores r) =
          [[''Limited technical signals detected''],
           [''Experience details not clearly stated''],
           [''Limited collaboration signals (common for individual contributors)''],
           [''Standard fit indicators''],
           [''No formal education stated (not penalized)'']]"
  proof -
    obtain r where r: "evaluate rank empty_candidate = Inr r"
      using evaluate_returns [where c = empty_candidate and rank = rank] empty_years by auto
    from evaluate_Inr [OF r] obtain es ee where
      ex: "score_experience empty_candidate (combine_text empty_candidate) = Inr (es, ee)" and
      ds: "dimension_scores r = built_dimension_scores rank empty_candidate es ee"
      by blast
    have ee: "ee = [''Experience details not clearly stated'']"
      using ex by (simp add: empty_text empty_experience)
    have "map (\<lambda>(key, ds). evidence ds) (dimension_scores r) =
          [[''Limited technical signals detected''],
           [''Experience details not clearly stated''],
           [''Limited collaboration signals (common for individual contributors)''],
           [''Standard fit indicators''],
           [''No formal education stated (not penalized)'']]"
      unfolding ds built_dimension_scores_def empty_text empty_core empty_collab empty_fit
        empty_edu ee
      by simp
    with r show ?thesis by (intro exI [of _ r] conjI)
  qed
  from general specific show ?thesis by (rule conjI)
qed

theorem evidence_never_empty_witness:
  "\<exists>r. evaluate length scenario_candidate = Inr r \<and> length (dimension_scores r) = 5 \<and>
       (\<forall>(key, ds) \<in> set (dimension_scores r). evidence ds \<noteq> [])"
proof -
  obtain r where r: "evaluate length scenario_candidate = Inr r"
    using evaluate_returns [where c = scenario_candidate and rank = length] scenario_years by auto
  show ?thesis
    using evidence_never_empty [where c = scenario_candidate and rank = length] r by simp
qed

subsection \<open>The years lookup\<close>

text \<open>
  What the lookup returns, input by input. It returns one of 5, 6, 8 and 10 on every
  input of the model but one: when \<open>float(years)\<close> is NaN, every comparison is false, no branch is
  taken and the function returns \<open>None\<close>.
\<close>

lemma score_experience_years_table:
  "score_experience_years y =
     (if is_not_stated y \<or> y = YNone then Some 5
      else case py_float y of
        None \<Rightarrow> Some 5
      | Some NaN \<Rightarrow> None
      | Some PosInf \<Rightarrow> Some 6
      | Some NegInf \<Rightarrow> Some 5
      | Some (Finite q) \<Rightarrow>
          Some (if 1 \<le> q \<and> q \<le> 3 then 10
                else if 1/2 \<le> q \<and> q < 1 then 8
                else if 3 < q \<and> q \<le> 5 then 8
                else if 5 < q then 6
                else 5))"
  by (auto simp: score_experience_years_def split: option.splits pyfloat.splits)

text \<open>
  C4. The years lookup is claimed to be total with values 5, 10, 8, 8, 6 and 5. At the
  float NaN, which pandas supplies for an empty CSV cell, it returns \<open>None\<close>, and
  the evaluation of such a candidate ends in \<open>TypeError\<close>.
\<close>

theorem score_experience_years_nan:
  "score_experience_years (YNumber NaN ''nan'') = None \<and>
   evaluate length nan_candidate = Inl TypeError"
proof -
  have a: "score_experience_years (YNumber NaN ''nan'') = None"
    by (simp add: score_experience_years_def)
  then have "score_experience_years (years_experience nan_candidate) = None"
    by (simp add: nan_candidate_def)
  then have "evaluate length nan_candidate = Inl TypeError"
    by (simp add: evaluate_Inl)
  with a show ?thesis by (rule conjI)
qed

subsection \<open>The status decision and the bias override\<close>

lemma determine_status_states:
  "fst (determine_status fs b dims core) = ''Rejected'' \<or>
   fst (determine_status fs b dims core) = ''Shortlisted''"
  by (simp add: determine_status_def Let_def)

text \<open>
  C1. For every candidate the bias guard flags, the returned result has the status
  "Flagged for Review", whichever of Rejected and Shortlisted the score-based decision
  produced; the shortlist reasons, concerns and rejection reasons of the result are
  exactly the ones that decision returned for the result's final score, band and
  dimension table, and these are computed as for any other candidate. A result is
  returned unless the years lookup has returned \<open>None\<close>.
\<close>

theorem bias_flag_overrides_status_only:
  assumes "fst (check_candidate rank (cv_text c) (additional_info c))"
  shows "case evaluate rank c of
           Inl e \<Rightarrow> e = TypeError \<and> score_experience_years (years_experience c) = None
         | Inr r \<Rightarrow>
             status r = ''Flagged for Review'' \<and>
             (\<exists>st. (st = ''Rejected'' \<or> st = ''Shortlisted'') \<and>
                   determine_status (final_score r) (band r) (dimension_scores r)
                     (fst (score_core_competencies rank (combine_text c)))
                   = (st, shortlist_reasons r, concerns r, rejection_reasons r)) \<and>
             (\<exists>es ee. score_experience c (combine_text c) = Inr (es, ee) \<and>
                   dimension_scores r = built_dimension_scores rank c es ee) \<and>
             final_score r = sum_list (map (\<lambda>(key, ds). weighted_score ds) (dimension_scores r)) \<and>
             band r = get_score_band (final_score r)"
proof (cases "evaluate rank c")
  case (Inl e)
  then have "e = TypeError \<and> score_experience_years (years_experience c) = None"
    by (simp add: evaluate_Inl)
  then show ?thesis using Inl by simp
next
  case (Inr r)
  from evaluate_Inr [OF Inr] obtain es ee st where
    ex: "score_experience c (combine_text c) = Inr (es, ee)" and
    ds: "dimension_scores r = built_dimension_scores rank c es ee" and
    fs: "final_score r = sum_list (map (\<lambda>(key, ds). weighted_score ds) (dimension_scores r))" and
    bd: "band r = get_score_band (final_score r)" and
    dec: "determine_status (final_score r) (band r) (dimension_scores r)
            (fst (score_core_competencies rank (combine_text c)))
          = (st, shortlist_reasons r, concerns r, rejection_reasons r)" and
    st: "status r = (if fst (check_candidate rank (cv_text c) (additional_info c))
                     then ''Flagged for Review'' else st)"
    by blast
  have flagged: "status r = ''Flagged for Review''"
    using st assms by simp
  have "st = ''Rejected'' \<or> st = ''Shortlisted''"
    using determine_status_states [of "final_score r" "band r" "dimension_scores r"
        "fst (score_core_competencies rank (combine_text c))"]
    unfolding dec by simp
  then have decision: "\<exists>st. (st = ''Rejected'' \<or> st = ''Shortlisted'') \<and>
                   determine_status (final_score r) (band r) (dimension_scores r)
                     (fst (score_core_competencies rank (combine_text c)))
                   = (st, shortlist_reasons r, concerns r, rejection_reasons r)"
    using dec by (intro exI [of _ st] conjI)
  have table: "\<exists>es ee. score_experience c (combine_text c) = Inr (es, ee) \<and>
                   dimension_scores r = built_dimension_scores rank c es ee"
    using ex ds by (intro exI [of _ es] exI [of _ ee] conjI)
  show ?thesis
    unfolding Inr sum.case using flagged decision table fs bd by (intro conjI)
qed

lemma flagged_candidate_flagged:
  "fst (check_candidate length (cv_text flagged_candidate) (additional_info flagged_candidate))"
  by code_simp

lemma flagged_years: "score_experience_years (years_experience flagged_candidate) = Some 8"
  by (simp add: flagged_candidate_def score_experience_years_def)

theorem bias_flag_overrides_status_only_witness:
  "fst (check_candidate length (cv_text flagged_candidate) (additional_info flagged_candidate)) \<and>
   (\<exists>r. evaluate length flagged_candidate = Inr r \<and> status r = ''Flagged for Review'')"
proof -
  obtain r where r: "evaluate length flagged_candidate = Inr r"
    using evaluate_returns [where c = flagged_candidate and rank = length] flagged_years by auto
  have "status r = ''Flagged for Review''"
    using bias_flag_overrides_status_only [OF flagged_candidate_flagged] unfolding r sum.case
    by (rule conjunct1)
  with r have "\<exists>r. evaluate length flagged_candidate = Inr r \<and> status r = ''Flagged for Review''"
    by (intro exI [of _ r] conjI)
  with flagged_candidate_flagged show ?thesis by (rule conjI)
qed

text \<open>
  C2. The decision rejects a core score of 0 with the one fixed reason, for every final
  score, band and dimension table. Hence for every candidate the bias guard does not flag
  and whose core-competencies score is 0, the returned result is Rejected with exactly
  that rejection reason and with no shortlist reasons and no concerns.
\<close>

theorem zero_core_rejected:
  assumes "\<not> fst (check_candidate rank (cv_text c) (additional_info c))"
    and "fst (score_core_competencies rank (combine_text c)) = 0"
  shows "determine_status fs b dims 0 =
           (''Rejected'', [], [],
            [''Core competencies do not match required role stack (no relevant tools detected)'']) \<and>
         (case evaluate rank c of
            Inl e \<Rightarrow> e = TypeError \<and> score_experience_years (years_experience c) = None
          | Inr r \<Rightarrow>
              dim_score r ''core_competencies'' = Some 0 \<and>
              status r = ''Rejected'' \<and>
              rejection_reasons r =
                [''Core competencies do not match required role stack (no relevant tools detected)''] \<and>
              shortlist_reasons r = [] \<and>
              concerns r = [])"
proof -
  have fixed: "determine_status fs b dims 0 =
           (''Rejected'', [], [],
            [''Core competencies do not match required role stack (no relevant tools detected)''])"
    for fs b dims
    by (simp add: determine_status_def CORE_COMPETENCY_ZERO_REJECT_def)
  have "case evaluate rank c of
            Inl e \<Rightarrow> e = TypeError \<and> score_experience_years (years_experience c) = None
          | Inr r \<Rightarrow>
              dim_score r ''core_competencies'' = Some 0 \<and>
              status r = ''Rejected'' \<and>
              rejection_reasons r =
                [''Core competencies do not match required role stack (no relevant tools detected)''] \<and>
              shortlist_reasons r = [] \<and>
              concerns r = []"
  proof (cases "evaluate rank c")
    case (Inl e)
    then have "e = TypeError \<and> score_experience_years (years_experience c) = None"
      by (simp add: evaluate_Inl)
    then show ?thesis using Inl by simp
  next
    case (Inr r)
    from evaluate_Inr [OF Inr] obtain es ee st where
      ds: "dimension_scores r = built_dimension_scores rank c es ee" and
      dec: "determine_status (final_score r) (band r) (dimension_scores r)
              (fst (score_core_competencies rank (combine_text c)))
            = (st, shortlist_reasons r, concerns r, rejection_reasons r)" and
      st: "status r = (if fst (check_candidate rank (cv_text c) (additional_info c))
                       then ''Flagged for Review'' else st)"
      by blast
    have core: "dim_score r ''core_competencies'' = Some 0"
      by (simp add: dim_score_def ds built_dimension_scores_def assms(2))
    from dec have parts: "st = ''Rejected'' \<and> shortlist_reasons r = [] \<and> concerns r = [] \<and>
        rejection_reasons r =
          [''Core competencies do not match required role stack (no relevant tools detected)'']"
      unfolding assms(2) fixed by simp
    have "status r = ''Rejected''" using st assms(1) parts by simp
    then show ?thesis unfolding Inr sum.case using core parts by simp
  qed
  with fixed show ?thesis by (rule conjI)
qed

lemma empty_not_flagged:
  "\<not> fst (check_candidate length (cv_text empty_candidate) (additional_info empty_candidate))"
  by code_simp

theorem zero_core_rejected_witness:
  "\<not> fst (check_candidate length (cv_text empty_candidate) (additional_info empty_candidate)) \<and>
   fst (score_core_competencies length (combine_text empty_candidate)) = 0 \<and>
   (\<exists>r. evaluate length empty_candidate = Inr r \<and> status r = ''Rejected'' \<and>
        rejection_reasons r =
          [''Core competencies do not match required role stack (no relevant tools detected)''])"
proof -
  have core: "fst (score_core_competencies length (combine_text empty_candidate)) = 0"
    by (simp add: empty_text empty_core)
  obtain r where r: "evaluate length empty_candidate = Inr r"
    using evaluate_returns [where c = empty_candidate and rank = length] empty_years by auto
  have "status r = ''Rejected'' \<and>
        rejection_reasons r =
          [''Core competencies do not match required role stack (no relevant tools detected)'']"
    using zero_core_rejected [OF empty_not_flagged core] unfolding r sum.case by simp
  with r have "\<exists>r. evaluate length empty_candidate = Inr r \<and> status r = ''Rejected'' \<and>
        rejection_reasons r =
          [''Core competencies do not match required role stack (no relevant tools detected)'']"
    by (intro exI [of _ r] conjI) simp_all
  with empty_not_flagged core show ?thesis by (intro conjI)
qed

subsection \<open>Which dimensions can be reported as weak\<close>

lemma lower_core_name: "lower ''Core Competencies'' = ''core competencies''"
  by (simp add: lower_def lower_char_def)

lemma built_weak_filter:
  assumes "score_experience c (combine_text c) = Inr (es, ee)"
  shows "filter (\<lambda>(key, ds). score ds < 4) (built_dimension_scores rank c es ee) =
           (if fst (score_core_competencies rank (combine_text c)) < 4
            then [hd (built_dimension_scores rank c es ee)] else [])"
  using score_experience_Inr [OF assms] collab_range [of "combine_text c"]
    fit_range [of c "combine_text c"] edu_range [of rank "combine_text c"]
  by (simp add: built_dimension_scores_def)

lemma built_limited_filter:
  assumes "score_experience c (combine_text c) = Inr (es, ee)"
  shows "filter (\<lambda>(key, ds). score ds < 5) (built_dimension_scores rank c es ee) =
           (if fst (score_core_competencies rank (combine_text c)) < 5
            then [hd (built_dimension_scores rank c es ee)] else [])"
  using score_experience_Inr [OF assms] collab_range [of "combine_text c"]
    fit_range [of c "combine_text c"] edu_range [of rank "combine_text c"]
  by (simp add: built_dimension_scores_def)

lemma built_hd:
  "hd (built_dimension_scores rank c es ee) =
     (''core_competencies'',
       \<lparr>name = ''Core Competencies'', score = fst (score_core_competencies rank (combine_text c)),
        weight = 35/100, evidence = snd (score_core_competencies rank (combine_text c))\<rparr>)"
  by (simp add: built_dimension_scores_def)

lemma determine_status_concerns:
  "fst (snd (snd (determine_status fs b dims core))) =
     (if core = 0 \<or> fs < 60 then []
      else map (\<lambda>(key, ds). ''Limited '' @ lower (name ds) @ '' signals'')
             (filter (\<lambda>(key, ds). score ds < 5) dims))"
  by (simp add: determine_status_def Let_def CORE_COMPETENCY_ZERO_REJECT_def REJECTION_THRESHOLD_def)

lemma determine_status_rejections:
  "snd (snd (snd (determine_status fs b dims core))) =
     (if core = 0
      then [''Core competencies do not match required role stack (no relevant tools detected)'']
      else if fs < 60
      then (''Score '' @ fmt1 fs @ '' below threshold ('' @ str_of_int 60 @ '')'') #
             map (\<lambda>(key, ds). ''Weak '' @ name ds @ '': '' @ fmt1 (score ds) @ ''/10'')
               (filter (\<lambda>(key, ds). score ds < 4) dims)
      else [])"
  by (simp add: determine_status_def Let_def CORE_COMPETENCY_ZERO_REJECT_def REJECTION_THRESHOLD_def)

text \<open>
  C9. For every candidate whose years value is "Not stated" or converts to an ordinary
  (finite) number, a result is returned in which the Experience, Collaboration,
  Cultural-fit and Education scores are all at least 5. Consequently the concerns are
  either empty or the single concern about core competencies, and the rejection reasons
  are empty, the fixed zero-core reason, the threshold message alone, or the threshold
  message followed by the one "Weak Core Competencies" message: no "Limited ... signals"
  concern and no "Weak ..." message ever names another dimension.
\<close>

theorem only_core_can_be_weak:
  assumes "is_not_stated (years_experience c) \<or>
           (\<exists>q. py_float (years_experience c) = Some (Finite q))"
  shows "\<exists>r. evaluate rank c = Inr r \<and>
           (\<exists>s. dim_score r ''experience_results'' = Some s \<and> 5 \<le> s) \<and>
           (\<exists>s. dim_score r ''collaboration_signals'' = Some s \<and> 5 \<le> s) \<and>
           (\<exists>s. dim_score r ''cultural_practical_fit'' = Some s \<and> 5 \<le> s) \<and>
           (\<exists>s. dim_score r ''education_other'' = Some s \<and> 5 \<le> s) \<and>
           (concerns r = [] \<or> concerns r = [''Limited core competencies signals'']) \<and>
           (rejection_reasons r = [] \<or>
            rejection_reasons r =
              [''Core competencies do not match required role stack (no relevant tools detected)''] \<or>
            rejection_reasons r =
              [''Score '' @ fmt1 (final_score r) @ '' below threshold (60)''] \<or>
            rejection_reasons r =
              [''Score '' @ fmt1 (final_score r) @ '' below threshold (60)'',
               ''Weak Core Competencies: ''
                 @ fmt1 (fst (score_core_competencies rank (combine_text c))) @ ''/10''])"
proof -
  have "score_experience_years (years_experience c) \<noteq> None"
    using assms by (auto simp: score_experience_years_None_iff)
  then obtain r where r: "evaluate rank c = Inr r"
    using evaluate_returns by blast
  from evaluate_Inr [OF r] obtain es ee st where
    ex: "score_experience c (combine_text c) = Inr (es, ee)" and
    ds: "dimension_scores r = built_dimension_scores rank c es ee" and
    dec: "determine_status (final_score r) (band r) (dimension_scores r)
            (fst (score_core_competencies rank (combine_text c)))
          = (st, shortlist_reasons r, concerns r, rejection_reasons r)"
    by blast
  have e: "\<exists>s. dim_score r ''experience_results'' = Some s \<and> 5 \<le> s"
    using score_experience_Inr [OF ex] by (simp add: dim_score_def ds built_dimension_scores_def)
  have l: "\<exists>s. dim_score r ''collaboration_signals'' = Some s \<and> 5 \<le> s"
    using collab_range [of "combine_text c"]
    by (simp add: dim_score_def ds built_dimension_scores_def)
  have f: "\<exists>s. dim_score r ''cultural_practical_fit'' = Some s \<and> 5 \<le> s"
    using fit_range [of c "combine_text c"]
    by (simp add: dim_score_def ds built_dimension_scores_def)
  have d: "\<exists>s. dim_score r ''education_other'' = Some s \<and> 5 \<le> s"
    using edu_range [of rank "combine_text c"]
    by (simp add: dim_score_def ds built_dimension_scores_def)
  have sixty: "str_of_int 60 = ''60''"
    by (simp add: str_of_int_def str_of_nat.simps digit_char_def)
  have "concerns r = fst (snd (snd (determine_status (final_score r) (band r) (dimension_scores r)
            (fst (score_core_competencies rank (combine_text c))))))"
    unfolding dec by simp
  then have cn: "concerns r = [] \<or> concerns r = [''Limited core competencies signals'']"
    unfolding determine_status_concerns ds built_limited_filter [OF ex] built_hd
    by (simp add: lower_core_name)
  have "rejection_reasons r = snd (snd (snd (determine_status (final_score r) (band r)
            (dimension_scores r) (fst (score_core_competencies rank (combine_text c))))))"
    unfolding dec by simp
  then have rr: "rejection_reasons r = [] \<or>
            rejection_reasons r =
              [''Core competencies do not match required role stack (no relevant tools detected)''] \<or>
            rejection_reasons r =
              [''Score '' @ fmt1 (final_score r) @ '' below threshold (60)''] \<or>
            rejection_reasons r =
              [''Score '' @ fmt1 (final_score r) @ '' below threshold (60)'',
               ''Weak Core Competencies: ''
                 @ fmt1 (fst (score_core_competencies rank (combine_text c))) @ ''/10'']"
    unfolding determine_status_rejections ds built_weak_filter [OF ex] built_hd sixty
    by simp
  from r e l f d cn rr show ?thesis by (intro exI [of _ r] conjI)
qed

theorem only_core_can_be_weak_witness:
  "(\<exists>q. py_float (years_experience scenario_candidate) = Some (Finite q)) \<and>
   (\<exists>r. evaluate length scenario_candidate = Inr r \<and>
        (concerns r = [] \<or> concerns r = [''Limited core competencies signals'']))"
proof -
  have "py_float (years_experience scenario_candidate) = Some (Finite 2)"
    by (simp add: scenario_candidate_def)
  then have h: "\<exists>q. py_float (years_experience scenario_candidate) = Some (Finite q)"
    by (rule exI)
  then have h': "is_not_stated (years_experience scenario_candidate) \<or>
           (\<exists>q. py_float (years_experience scenario_candidate) = Some (Finite q))"
    by (rule disjI2)
  from only_core_can_be_weak [OF h', of length] obtain r where
    "evaluate length scenario_candidate = Inr r"
    "concerns r = [] \<or> concerns r = [''Limited core competencies signals'']"
    by blast
  then have "\<exists>r. evaluate length scenario_candidate = Inr r \<and>
        (concerns r = [] \<or> concerns r = [''Limited core competencies signals''])"
    by (intro exI [of _ r] conjI)
  with h show ?thesis by (rule conjI)
qed

subsection \<open>The worked scenario\<close>

text \<open>
  The whole result for the scenario candidate, with set iteration ordered by length.
  One required tool is found (\<open>after effects\<close>) and two skill keywords (\<open>rigging\<close>
  and its substring \<open>rig\<close>), so the core score is 4 + 2 * 0.6.
\<close>

lemma scenario_result:
  "evaluate length scenario_candidate =
     Inr \<lparr>candidate_id = ''1'',
        dimension_scores =
          [(''core_competencies'',
            \<lparr>name = ''Core Competencies'', score = 26 / 5, weight = 7 / 20,
               evidence =
                 [''Required tool: after effects'',
                  ''Animation skills: rig, rigging'']\<rparr>),
           (''experience_results'',
            \<lparr>name = ''Experience & Results'', score = 10, weight = 1 / 4,
               evidence = [''Experience: 2 years'']\<rparr>),
           (''collaboration_signals'',
            \<lparr>name = ''Collaboration Signals'', score = 63 / 10,
               weight = 1 / 5,
               evidence =
                 [''Collaboration signals: team, collaborate'',
                  ''Direct team experience mentioned'']\<rparr>),
           (''cultural_practical_fit'',
            \<lparr>name = ''Cultural & Practical Fit'', score = 15 / 2,
               weight = 3 / 20,
               evidence =
                 [''English: Advanced'',
                  ''Stated job preferences available'']\<rparr>),
           (''education_other'',
            \<lparr>name = ''Education & Other Signals'', score = 5,
               weight = 1 / 20,
               evidence =
                 [''No formal education stated (not penalized)'']\<rparr>)],
        final_score = 1391 / 20, band = ''Borderline'',
        status = ''Shortlisted'',
        shortlist_reasons =
          [''Experience & Results (25%): Experience: 2 years'',
           ''Cultural & Practical Fit (15%): English: Advanced'',
           ''Collaboration Signals (20%): Collaboration signals: team, collaborate''],
        concerns = [], rejection_reasons = [], bias_flags = []\<rparr>"
  by code_simp

text \<open>
  C3, as stated, fails: for the scenario candidate the core-competencies score is 5.2,
  which is not at least 8, and the final score is 69.55, which is not at least 70; the
  band is Borderline.
\<close>

theorem scenario_scores_counterexample:
  "\<not> isl (evaluate length scenario_candidate) \<and>
   dim_score (projr (evaluate length scenario_candidate)) ''core_competencies'' = Some (26/5) \<and>
   \<not> (8::rat) \<le> 26/5 \<and>
   final_score (projr (evaluate length scenario_candidate)) = 1391/20 \<and>
   \<not> (70::rat) \<le> 1391/20 \<and>
   band (projr (evaluate length scenario_candidate)) = ''Borderline''"
  unfolding scenario_result by (simp add: dim_score_def)

lemma sort_key_Nil_iff: "sort_key f xs = [] \<longleftrightarrow> xs = []"
proof -
  have "length (sort_key f xs) = length xs" by (rule length_sort)
  then show ?thesis by (metis length_0_conv)
qed

lemma check_candidate_flagged_iff:
  "fst (check_candidate rank a b) \<longleftrightarrow> scan_text (a @ '' '' @ b) \<noteq> []"
  by (simp add: check_candidate_def Let_def py_list_set_def sort_key_Nil_iff)

lemma check_candidate_rank_independent:
  "fst (check_candidate rank a b) = fst (check_candidate rank' a b)"
  by (simp only: check_candidate_flagged_iff)

lemma determine_status_status:
  "fst (determine_status fs b dims core) =
     (if core = 0 \<or> fs < 60 then ''Rejected'' else ''Shortlisted'')"
  by (simp add: determine_status_def Let_def CORE_COMPETENCY_ZERO_REJECT_def
      REJECTION_THRESHOLD_def)

lemma scenario_text:
  "combine_text scenario_candidate =
     ''after effects, rigging, collaborated with team, 2 years experience, fluent english  ''"
  by code_simp

lemma scenario_core:
  "fst (score_core_competencies rank
     ''after effects, rigging, collaborated with team, 2 years experience, fluent english  '') = 26/5"
proof -
  have "fst (score_core_competencies length
     ''after effects, rigging, collaborated with team, 2 years experience, fluent english  '') = 26/5"
    by code_simp
  then show ?thesis by (simp add: core_rank_independent [of rank _ length])
qed

lemma scenario_experience:
  "score_experience scenario_candidate
     ''after effects, rigging, collaborated with team, 2 years experience, fluent english  ''
   = Inr (10, [''Experience: 2 years''])"
  by code_simp

lemma scenario_collab:
  "fst (score_collaboration
     ''after effects, rigging, collaborated with team, 2 years experience, fluent english  '') = 63/10"
  by code_simp

lemma scenario_fit:
  "fst (score_cultural_fit scenario_candidate
     ''after effects, rigging, collaborated with team, 2 years experience, fluent english  '') = 15/2"
  by code_simp

lemma scenario_edu:
  "fst (score_education rank
     ''after effects, rigging, collaborated with team, 2 years experience, fluent english  '') = 5"
proof -
  have "fst (score_education length
     ''after effects, rigging, collaborated with team, 2 years experience, fluent english  '') = 5"
    by code_simp
  then show ?thesis by (simp add: edu_rank_independent [of rank _ length])
qed

lemma scenario_not_flagged:
  "\<not> fst (check_candidate rank (cv_text scenario_candidate) (additional_info scenario_candidate))"
proof -
  have "\<not> fst (check_candidate length (cv_text scenario_candidate)
                 (additional_info scenario_candidate))"
    by code_simp
  then show ?thesis by (simp add: check_candidate_rank_independent [of rank _ _ length])
qed

text \<open>
  C3, amended. For the scenario candidate a result is returned, whatever the iteration
  order of sets: the core-competencies score is 5.2, the Experience score 10, the
  Collaboration score 6.3, the Cultural-fit score 7.5, the Education score 5, the final
  score 69.55 with band Borderline, and the status is Shortlisted.
\<close>

theorem scenario_outcome:
  "\<exists>r. evaluate rank scenario_candidate = Inr r \<and>
       dim_score r ''core_competencies'' = Some (26/5) \<and>
       dim_score r ''experience_results'' = Some 10 \<and>
       dim_score r ''collaboration_signals'' = Some (63/10) \<and>
       dim_score r ''cultural_practical_fit'' = Some (15/2) \<and>
       dim_score r ''education_other'' = Some 5 \<and>
       final_score r = 1391/20 \<and>
       band r = ''Borderline'' \<and>
       status r = ''Shortlisted''"
proof -
  obtain r where r: "evaluate rank scenario_candidate = Inr r"
    using evaluate_returns [where c = scenario_candidate and rank = rank] scenario_years by auto
  from evaluate_Inr [OF r] obtain es ee st where
    ex: "score_experience scenario_candidate (combine_text scenario_candidate) = Inr (es, ee)" and
    ds: "dimension_scores r = built_dimension_scores rank scenario_candidate es ee" and
    fs: "final_score r = sum_list (map (\<lambda>(key, ds). weighted_score ds) (dimension_scores r))" and
    bd: "band r = get_score_band (final_score r)" and
    dec: "determine_status (final_score r) (band r) (dimension_scores r)
            (fst (score_core_competencies rank (combine_text scenario_candidate)))
          = (st, shortlist_reasons r, concerns r, rejection_reasons r)" and
    st: "status r = (if fst (check_candidate rank (cv_text scenario_candidate)
                               (additional_info scenario_candidate))
                     then ''Flagged for Review'' else st)"
    by blast
  have es: "es = 10" using ex by (simp add: scenario_text scenario_experience)
  have k: "dim_score r ''core_competencies'' = Some (26/5)"
    by (simp add: dim_score_def ds built_dimension_scores_def scenario_text scenario_core)
  have e: "dim_score r ''experience_results'' = Some 10"
    by (simp add: dim_score_def ds built_dimension_scores_def es)
  have l: "dim_score r ''collaboration_signals'' = Some (63/10)"
    by (simp add: dim_score_def ds built_dimension_scores_def scenario_text scenario_collab)
  have f: "dim_score r ''cultural_practical_fit'' = Some (15/2)"
    by (simp add: dim_score_def ds built_dimension_scores_def scenario_text scenario_fit)
  have d: "dim_score r ''education_other'' = Some 5"
    by (simp add: dim_score_def ds built_dimension_scores_def scenario_text scenario_edu)
  have total: "final_score r = 1391/20"
    by (simp add: fs ds built_dimension_scores_def weighted_score_def es scenario_text
        scenario_core scenario_collab scenario_fit scenario_edu)
  have b: "band r = ''Borderline''"
    by (simp add: bd total get_score_band_def)
  have "st = fst (determine_status (final_score r) (band r) (dimension_scores r)
            (fst (score_core_competencies rank (combine_text scenario_candidate))))"
    unfolding dec by simp
  then have "st = ''Shortlisted''"
    unfolding determine_status_status total scenario_text scenario_core by simp
  then have s: "status r = ''Shortlisted''"
    using st scenario_not_flagged [of rank] by simp
  from r k e l f d total b s show ?thesis by (intro exI [of _ r] conjI)
qed

subsection \<open>Reasons of a shortlisted candidate\<close>

lemma sort_key_ranked: "ranked_descending dims (sort_key (\<lambda>x. - score (snd x)) dims)"
proof -
  have "sorted (map (\<lambda>x. - score (snd x)) (sort_key (\<lambda>x. - score (snd x)) dims))"
    by (rule sorted_sort_key)
  then have "sorted_wrt (\<lambda>a b. score (snd b) \<le> score (snd a)) (sort_key (\<lambda>x. - score (snd x)) dims)"
    by (simp add: sorted_map)
  then show ?thesis by (simp add: ranked_descending_def)
qed

lemma determine_status_shortlisted:
  assumes "core \<noteq> 0" and "60 \<le> fs"
  shows "determine_status fs b dims core =
     (''Shortlisted'',
      map (\<lambda>(key, ds).
             name ds @ '' ('' @ str_of_int (py_int (weight ds * 100)) @ ''%): ''
               @ (case evidence ds of [] \<Rightarrow> [] | e # es \<Rightarrow> e))
        (filter (\<lambda>(key, ds). 6 \<le> score ds) (take 3 (sort_key (\<lambda>x. - score (snd x)) dims))),
      map (\<lambda>(key, ds). ''Limited '' @ lower (name ds) @ '' signals'')
        (filter (\<lambda>(key, ds). score ds < 5) dims),
      [])"
  using assms
  by (simp add: determine_status_def Let_def REJECTION_THRESHOLD_def)

lemma shortlist_reason_agrees:
  assumes "\<forall>(key, ds) \<in> set dims. evidence ds \<noteq> []"
    and "set xs \<subseteq> set dims"
  shows "map (\<lambda>(key, ds).
             name ds @ '' ('' @ str_of_int (py_int (weight ds * 100)) @ ''%): ''
               @ (case evidence ds of [] \<Rightarrow> [] | e # es \<Rightarrow> e)) xs
       = map (\<lambda>(key, ds). spec_shortlist_reason ds) xs"
proof (rule map_cong [OF refl])
  fix x assume "x \<in> set xs"
  then have "x \<in> set dims" using assms(2) by blast
  then have "evidence (snd x) \<noteq> []" using assms(1) by (cases x) auto
  then show "(case x of (key, ds) \<Rightarrow>
             name ds @ '' ('' @ str_of_int (py_int (weight ds * 100)) @ ''%): ''
               @ (case evidence ds of [] \<Rightarrow> [] | e # es \<Rightarrow> e))
       = (case x of (key, ds) \<Rightarrow> spec_shortlist_reason ds)"
    by (cases x; cases "evidence (snd x)") (simp_all add: spec_shortlist_reason_def)
qed

lemma built_percentages:
  "map (\<lambda>(key, ds). str_of_int (py_int (weight ds * 100))) (built_dimension_scores rank c es ee)
     = [''35'', ''25'', ''20'', ''15'', ''5'']"
  by (simp add: built_dimension_scores_def py_int_def str_of_int_def str_of_nat.simps digit_char_def)

text \<open>
  C7. For every returned result with a non-zero core score and a final score of at
  least 60: the shortlist reasons are obtained from a ranking of the five dimensions by
  descending score, by taking the top three, keeping those with score at least 6 and
  emitting for each the dimension name, its weight percentage (35, 25, 20, 15 or 5) and
  its first evidence string, which always exists; the concerns are one "Limited
  <dimension> signals" entry for each dimension scoring below 5, in dimension order; the
  rejection reasons are empty; and the status is Shortlisted unless the bias guard
  flagged the candidate.
\<close>

theorem shortlisted_reasons_and_concerns:
  assumes "evaluate rank c = Inr r"
    and "fst (score_core_competencies rank (combine_text c)) \<noteq> 0"
    and "60 \<le> final_score r"
  shows "\<exists>ranked.
           ranked_descending (dimension_scores r) ranked \<and>
           shortlist_reasons r =
             map (\<lambda>(key, ds). spec_shortlist_reason ds)
               (filter (\<lambda>(key, ds). 6 \<le> score ds) (take 3 ranked)) \<and>
           concerns r =
             map (\<lambda>(key, ds). spec_concern ds)
               (filter (\<lambda>(key, ds). score ds < 5) (dimension_scores r)) \<and>
           rejection_reasons r = [] \<and>
           length (dimension_scores r) = 5 \<and>
           (\<forall>(key, ds) \<in> set (dimension_scores r). evidence ds \<noteq> []) \<and>
           map (\<lambda>(key, ds). str_of_int (py_int (weight ds * 100))) (dimension_scores r)
             = [''35'', ''25'', ''20'', ''15'', ''5''] \<and>
           status r = (if fst (check_candidate rank (cv_text c) (additional_info c))
                       then ''Flagged for Review'' else ''Shortlisted'')"
proof -
  from evaluate_Inr [OF assms(1)] obtain es ee st where
    ex: "score_experience c (combine_text c) = Inr (es, ee)" and
    ds: "dimension_scores r = built_dimension_scores rank c es ee" and
    dec: "determine_status (final_score r) (band r) (dimension_scores r)
            (fst (score_core_competencies rank (combine_text c)))
          = (st, shortlist_reasons r, concerns r, rejection_reasons r)" and
    st: "status r = (if fst (check_candidate rank (cv_text c) (additional_info c))
                     then ''Flagged for Review'' else st)"
    by blast
  define ranked where "ranked = sort_key (\<lambda>x. - score (snd x)) (dimension_scores r)"
  have ev: "\<forall>(key, ds) \<in> set (dimension_scores r). evidence ds \<noteq> []"
    using built_scores_range [OF ex, of rank] by (auto simp: ds)
  have five: "length (dimension_scores r) = 5"
    by (simp add: ds built_dimension_scores_def)
  have pct: "map (\<lambda>(key, ds). str_of_int (py_int (weight ds * 100))) (dimension_scores r)
             = [''35'', ''25'', ''20'', ''15'', ''5'']"
    unfolding ds by (rule built_percentages)
  have rk: "ranked_descending (dimension_scores r) ranked"
    unfolding ranked_def by (rule sort_key_ranked)
  have sub: "set (filter (\<lambda>(key, ds). 6 \<le> score ds) (take 3 ranked)) \<subseteq> set (dimension_scores r)"
  proof -
    have "set (take 3 ranked) \<subseteq> set ranked" by (rule set_take_subset)
    also have "set ranked = set (dimension_scores r)" by (simp add: ranked_def)
    finally show ?thesis by auto
  qed
  from dec have parts:
    "st = ''Shortlisted''"
    "shortlist_reasons r =
       map (\<lambda>(key, ds).
             name ds @ '' ('' @ str_of_int (py_int (weight ds * 100)) @ ''%): ''
               @ (case evidence ds of [] \<Rightarrow> [] | e # es \<Rightarrow> e))
        (filter (\<lambda>(key, ds). 6 \<le> score ds) (take 3 ranked))"
    "concerns r =
       map (\<lambda>(key, ds). ''Limited '' @ lower (name ds) @ '' signals'')
        (filter (\<lambda>(key, ds). score ds < 5) (dimension_scores r))"
    "rejection_reasons r = []"
    unfolding determine_status_shortlisted [OF assms(2) assms(3)] ranked_def by simp_all
  have sr: "shortlist_reasons r =
             map (\<lambda>(key, ds). spec_shortlist_reason ds)
               (filter (\<lambda>(key, ds). 6 \<le> score ds) (take 3 ranked))"
    unfolding parts(2) by (rule shortlist_reason_agrees [OF ev sub])
  have cn: "concerns r =
             map (\<lambda>(key, ds). spec_concern ds)
               (filter (\<lambda>(key, ds). score ds < 5) (dimension_scores r))"
    unfolding parts(3) by (simp add: spec_concern_def)
  have stat: "status r = (if fst (check_candidate rank (cv_text c) (additional_info c))
                       then ''Flagged for Review'' else ''Shortlisted'')"
    using st parts(1) by simp
  from rk sr cn parts(4) five ev pct stat show ?thesis
    by (intro exI [of _ ranked] conjI)
qed

theorem shortlisted_reasons_and_concerns_witness:
  "\<exists>r. evaluate length scenario_candidate = Inr r \<and>
       fst (score_core_competencies length (combine_text scenario_candidate)) \<noteq> 0 \<and>
       60 \<le> final_score r \<and>
       rejection_reasons r = [] \<and>
       (\<exists>ranked. ranked_descending (dimension_scores r) ranked \<and>
          shortlist_reasons r =
            map (\<lambda>(key, ds). spec_shortlist_reason ds)
              (filter (\<lambda>(key, ds). 6 \<le> score ds) (take 3 ranked)))"
proof -
  define r where "r = projr (evaluate length scenario_candidate)"
  have ev: "evaluate length scenario_candidate = Inr r"
    unfolding r_def scenario_result by simp
  have core: "fst (score_core_competencies length (combine_text scenario_candidate)) \<noteq> 0"
    by (simp add: scenario_text scenario_core)
  have fs: "60 \<le> final_score r"
    unfolding r_def scenario_result by simp
  from shortlisted_reasons_and_concerns [OF ev core fs] obtain ranked where
    rk: "ranked_descending (dimension_scores r) ranked" and
    sr: "shortlist_reasons r =
            map (\<lambda>(key, ds). spec_shortlist_reason ds)
              (filter (\<lambda>(key, ds). 6 \<le> score ds) (take 3 ranked))" and
    rr: "rejection_reasons r = []"
    by blast
  from rk sr have "\<exists>ranked. ranked_descending (dimension_scores r) ranked \<and>
          shortlist_reasons r =
            map (\<lambda>(key, ds). spec_shortlist_reason ds)
              (filter (\<lambda>(key, ds). 6 \<le> score ds) (take 3 ranked))"
    by (intro exI [of _ ranked] conjI)
  with ev core fs rr show ?thesis by (intro exI [of _ r] conjI)
qed

subsection \<open>Keywords are found as substrings\<close>

lemma py_in_middle: "py_in kw (pre @ kw @ suf)"
  unfolding py_in_iff by blast

lemma filter_hit:
  assumes "kw \<in> set kws" and "P kw"
  shows "filter P kws \<noteq> []"
  using assms by (auto simp: filter_empty_conv)

lemma required_tool_scores_four:
  assumes "kw \<in> set REQUIRED_TOOLS"
  shows "4 \<le> fst (score_core_competencies rank (pre @ kw @ suf))"
proof -
  have "filter (\<lambda>tool. py_in tool (pre @ kw @ suf)) REQUIRED_TOOLS \<noteq> []"
    using assms py_in_middle by (rule filter_hit)
  then show ?thesis
    by (auto simp add: score_core_competencies_def Let_def min_def)
qed

lemma collaboration_keyword_scores:
  assumes "kw \<in> set COLLABORATION_KEYWORDS"
  shows "54/10 \<le> fst (score_collaboration (pre @ kw @ suf))"
proof -
  have ne: "filter (\<lambda>keyword. py_in keyword (pre @ kw @ suf)) COLLABORATION_KEYWORDS \<noteq> []"
    using assms py_in_middle by (rule filter_hit)
  then have "0 < length (filter (\<lambda>keyword. py_in keyword (pre @ kw @ suf)) COLLABORATION_KEYWORDS)"
    by simp
  then have "1 \<le> rat_of_nat (length (filter (\<lambda>keyword. py_in keyword (pre @ kw @ suf))
      COLLABORATION_KEYWORDS))"
    by (metis Suc_leI of_nat_1 of_nat_le_iff One_nat_def)
  then show ?thesis using ne
    by (auto simp add: score_collaboration_def Let_def min_def)
qed

lemma education_keyword_scores:
  assumes "kw \<in> set edu_keywords"
  shows "55/10 \<le> fst (score_education rank (pre @ kw @ suf))"
proof -
  have ne: "filter (\<lambda>k. py_in k (pre @ kw @ suf)) edu_keywords \<noteq> []"
    using assms py_in_middle by (rule filter_hit)
  then have "0 < length (filter (\<lambda>k. py_in k (pre @ kw @ suf)) edu_keywords)"
    by simp
  then have "1 \<le> rat_of_nat (length (filter (\<lambda>k. py_in k (pre @ kw @ suf)) edu_keywords))"
    by (metis Suc_leI of_nat_1 of_nat_le_iff One_nat_def)
  then show ?thesis using ne
    by (auto simp add: score_education_def Let_def min_def)
qed

text \<open>
  A candidate whose only text is the name "Michael": the letters \<open>ae\<close> inside the name
  are the sole keyword of the three tool and skill lists that occurs in the text, and
  they do not occur there as a word of their own.
\<close>

lemma michael_result:
  "evaluate length michael_candidate =
     Inr \<lparr>candidate_id = ''3'',
        dimension_scores =
          [(''core_competencies'',
            \<lparr>name = ''Core Competencies'', score = 4, weight = 7 / 20,
               evidence = [''Required tool: ae'']\<rparr>),
           (''experience_results'',
            \<lparr>name = ''Experience & Results'', score = 10, weight = 1 / 4,
               evidence = [''Experience: 2 years'']\<rparr>),
           (''collaboration_signals'',
            \<lparr>name = ''Collaboration Signals'', score = 5, weight = 1 / 5,
               evidence =
                 [''Limited collaboration signals (common for individual contributors)'']\<rparr>),
           (''cultural_practical_fit'',
            \<lparr>name = ''Cultural & Practical Fit'', score = 15 / 2,
               weight = 3 / 20,
               evidence = [''English: Advanced'']\<rparr>),
           (''education_other'',
            \<lparr>name = ''Education & Other Signals'', score = 5,
               weight = 1 / 20,
               evidence =
                 [''No formal education stated (not penalized)'']\<rparr>)],
        final_score = 251 / 4, band = ''Borderline'',
        status = ''Shortlisted'',
        shortlist_reasons =
          [''Experience & Results (25%): Experience: 2 years'',
           ''Cultural & Practical Fit (15%): English: Advanced''],
        concerns = [''Limited core competencies signals''],
        rejection_reasons = [], bias_flags = []\<rparr>"
  by code_simp

lemma michael_keywords:
  "combine_text michael_candidate = ''michael  '' \<and>
   filter (\<lambda>kw. py_in kw (combine_text michael_candidate))
     (REQUIRED_TOOLS @ PREFERRED_TOOLS @ ANIMATION_SKILLS) = [''ae''] \<and>
   \<not> re_search False (seqs [WordB, Lit ''ae'', WordB]) (combine_text michael_candidate)"
  by code_simp

text \<open>
  Each score, written with containment alone. The successive caps at 10 of the source
  collapse into a single one because every bonus is non-negative. A literal pattern
  is found by \<open>re.search\<close> exactly where it is contained in the text.
\<close>

lemma matched_py_in: "matched kws tx = filter (\<lambda>kw. py_in kw tx) kws"
  by (simp add: matched_def py_in_iff)

lemma list_ex_matched: "list_ex (\<lambda>kw. py_in kw tx) kws \<longleftrightarrow> matched kws tx \<noteq> []"
  by (simp add: matched_py_in filter_empty_conv list_ex_iff)

lemma core_by_containment:
  "fst (score_core_competencies rank tx) =
     min 10 ((if matched REQUIRED_TOOLS tx = [] then 0 else 4)
             + min 2 (of_nat (length (matched PREFERRED_TOOLS tx)) * (5/10))
             + min 4 (of_nat (length (matched ANIMATION_SKILLS tx)) * (6/10)))"
  by (simp add: score_core_competencies_def Let_def matched_py_in)

lemma experience_by_containment:
  "map_sum id fst (score_experience c tx) =
     (case score_experience_years (years_experience c) of
        None \<Rightarrow> Inl TypeError
      | Some ys \<Rightarrow>
          Inr (min 10 (of_int ys
                 + (if 3 \<le> length (matched project_indicators tx) then 1 else 0)
                 + (if matched DOMAIN_EXPERIENCE tx = [] then 0 else 5/10))))"
  by (auto simp add: score_experience_def Let_def matched_py_in min_def split: option.splits)

lemma collaboration_by_containment:
  "fst (score_collaboration tx) =
     min 10 (5 + min 3 (of_nat (length (matched COLLABORATION_KEYWORDS tx)) * (4/10))
             + (if list_ex (\<lambda>pattern. re_search False pattern tx) team_patterns then 5/10 else 0))"
  by (auto simp add: score_collaboration_def Let_def matched_py_in min_def)

lemma cultural_fit_by_containment:
  "fst (score_cultural_fit c tx) =
     min 10 (6 + (if english_level c \<noteq> ''Not stated''
                  then (of_int (case map_of ENGLISH_LEVEL_SCORES (english_level c) of
                                  Some v \<Rightarrow> v | None \<Rightarrow> 5) - 5) * (3/10)
                  else 0)
             + (if matched [''remote'', ''flexible'', ''work from home'', ''wfh''] tx = [] then 0 else 5/10)
             + (if matched [''deadline'', ''pressure'', ''fast-paced''] tx = [] then 0 else 5/10))"
  using english_cases [of "english_level c"]
  unfolding score_cultural_fit_def Let_def list_ex_matched
  by (auto simp add: min_def)

lemma education_by_containment:
  "fst (score_education rank tx) =
     min 10 (5 + min 3 (of_nat (length (matched edu_keywords tx)) * (5/10))
             + (if matched [''animation course'', ''artcraft'', ''motion academy''] tx = [] then 0 else 1))"
  unfolding score_education_def Let_def list_ex_matched
  by (auto simp add: min_def matched_py_in)

lemma combine_text_eq:
  "combine_text c =
     lower (cv_text c @ '' '' @ (if highlights c = ''Not stated'' then [] else highlights c)
              @ '' '' @ additional_info c)"
  by (simp add: combine_text_def Let_def)

lemma evaluate_scores_from_combined_text:
  assumes "evaluate rank c = Inr r"
  shows "dim_score r ''core_competencies'' = Some (fst (score_core_competencies rank (combine_text c))) \<and>
         map_sum id fst (score_experience c (combine_text c)) =
           (case dim_score r ''experience_results'' of None \<Rightarrow> Inl KeyError | Some s \<Rightarrow> Inr s) \<and>
         dim_score r ''collaboration_signals'' = Some (fst (score_collaboration (combine_text c))) \<and>
         dim_score r ''cultural_practical_fit'' = Some (fst (score_cultural_fit c (combine_text c))) \<and>
         dim_score r ''education_other'' = Some (fst (score_education rank (combine_text c)))"
proof -
  from evaluate_Inr [OF assms] obtain es ee where
    ex: "score_experience c (combine_text c) = Inr (es, ee)" and
    ds: "dimension_scores r = built_dimension_scores rank c es ee"
    by blast
  show ?thesis
    by (simp add: dim_score_def ds built_dimension_scores_def ex)
qed


lemma lit_ends_exact:
  "lit_ends False s (prev, rest) =
     (if startswith s rest
      then [(if s = [] then prev else Some (last s), drop (length s) rest)] else [])"
proof (induction s arbitrary: prev rest)
  case Nil
  then show ?case by simp
next
  case (Cons c cs)
  show ?case
  proof (cases rest)
    case Nil
    then show ?thesis by simp
  next
    case (Cons d ds)
    then show ?thesis using Cons.IH [of "Some d" ds] by (auto simp: char_eq_def)
  qed
qed

lemma star_ends_nonempty: "star_ends k p \<noteq> []"
proof (cases p)
  case (Pair prev rest)
  then show ?thesis by (cases rest) auto
qed

lemma plus_digit_ends: "re_ends False (Plus Digit) (p, rest) \<noteq> [] \<longleftrightarrow>
    (\<exists>d ds. rest = d # ds \<and> is_digit d)"
  by (cases rest) (auto simp: star_ends_nonempty)

lemma lit_then_digits_ends:
  "re_ends False (Seq (Lit s) (Plus Digit)) (p, rest) \<noteq> [] \<longleftrightarrow>
     (\<exists>d suf. is_digit d \<and> rest = s @ d # suf)"
proof -
  have "re_ends False (Seq (Lit s) (Plus Digit)) (p, rest) \<noteq> [] \<longleftrightarrow>
     startswith s rest \<and> (\<exists>d ds. drop (length s) rest = d # ds \<and> is_digit d)"
    using plus_digit_ends by (simp add: lit_ends_exact del: re_ends.simps(4))
  also have "\<dots> \<longleftrightarrow> (\<exists>d suf. is_digit d \<and> rest = s @ d # suf)"
    by (auto simp: startswith_iff)
  finally show ?thesis .
qed

lemma search_from_positions:
  assumes "\<And>p rest. (re_ends ic r (p, rest) \<noteq> []) = M rest"
  shows "search_from ic r (prev, rest) \<longleftrightarrow> (\<exists>pre suf. rest = pre @ suf \<and> M suf)"
proof (induction rest arbitrary: prev)
  case Nil
  then show ?case by (simp add: assms)
next
  case (Cons d ds)
  have "search_from ic r (prev, d # ds) \<longleftrightarrow> M (d # ds) \<or> (\<exists>pre suf. ds = pre @ suf \<and> M suf)"
    by (simp add: assms Cons.IH)
  also have "\<dots> \<longleftrightarrow> (\<exists>pre suf. d # ds = pre @ suf \<and> M suf)"
  proof
    assume "M (d # ds) \<or> (\<exists>pre suf. ds = pre @ suf \<and> M suf)"
    then show "\<exists>pre suf. d # ds = pre @ suf \<and> M suf"
    proof
      assume "M (d # ds)"
      then have "d # ds = [] @ (d # ds) \<and> M (d # ds)" by simp
      then show ?thesis by blast
    next
      assume "\<exists>pre suf. ds = pre @ suf \<and> M suf"
      then obtain pre suf where "ds = pre @ suf" "M suf" by blast
      then have "d # ds = (d # pre) @ suf \<and> M suf" by simp
      then show ?thesis by blast
    qed
  next
    assume "\<exists>pre suf. d # ds = pre @ suf \<and> M suf"
    then obtain pre suf where eq: "d # ds = pre @ suf" and m: "M suf" by blast
    show "M (d # ds) \<or> (\<exists>pre suf. ds = pre @ suf \<and> M suf)"
    proof (cases pre)
      case Nil
      then show ?thesis using eq m by simp
    next
      case (Cons a as)
      then have "ds = as @ suf" using eq by simp
      then show ?thesis using m by blast
    qed
  qed
  finally show ?case .
qed

lemma re_search_literal: "re_search False (Lit s) tx \<longleftrightarrow> (\<exists>pre suf. tx = pre @ s @ suf)"
proof -
  have "\<And>p rest. (re_ends False (Lit s) (p, rest) \<noteq> []) = (\<exists>suf. rest = s @ suf)"
    by (simp add: lit_ends_exact startswith_iff)
  from search_from_positions [of False "Lit s" "\<lambda>rest. \<exists>suf. rest = s @ suf", OF this]
  show ?thesis by (auto simp: re_search_def)
qed

lemma re_search_literal_digits:
  "re_search False (Seq (Lit s) (Plus Digit)) tx \<longleftrightarrow>
     (\<exists>pre d suf. is_digit d \<and> tx = pre @ s @ d # suf)"
proof -
  have "\<And>p rest. (re_ends False (Seq (Lit s) (Plus Digit)) (p, rest) \<noteq> [])
      = (\<exists>d suf. is_digit d \<and> rest = s @ d # suf)"
    by (rule lit_then_digits_ends)
  from search_from_positions [of False "Seq (Lit s) (Plus Digit)"
      "\<lambda>rest. \<exists>d suf. is_digit d \<and> rest = s @ d # suf", OF this]
  show ?thesis by (auto simp: re_search_def)
qed

lemma team_patterns_by_containment:
  "list_ex (\<lambda>pattern. re_search False pattern tx) team_patterns \<longleftrightarrow>
     (\<exists>pre d suf. is_digit d \<and> tx = pre @ ''team of '' @ d # suf) \<or>
     matched [''worked with'', ''collaborated'', ''mentored'', ''supervised''] tx \<noteq> []"
proof -
  have "list_ex (\<lambda>pattern. re_search False pattern tx) team_patterns \<longleftrightarrow>
     re_search False (Seq (Lit ''team of '') (Plus Digit)) tx \<or>
     re_search False (Lit ''worked with'') tx \<or> re_search False (Lit ''collaborated'') tx \<or>
     re_search False (Lit ''mentored'') tx \<or> re_search False (Lit ''supervised'') tx"
    by (simp add: team_patterns_def)
  also have "\<dots> \<longleftrightarrow>
     (\<exists>pre d suf. is_digit d \<and> tx = pre @ ''team of '' @ d # suf) \<or>
     matched [''worked with'', ''collaborated'', ''mentored'', ''supervised''] tx \<noteq> []"
    unfolding re_search_literal re_search_literal_digits matched_def
    by (simp add: filter_empty_conv del: append.simps append_Cons)
  finally show ?thesis .
qed


text \<open>
  C10. In every dimension scorer a keyword counts exactly when it occurs somewhere in
  the text as a contiguous run of characters, whatever surrounds it. Each of the five
  scores is determined by which keywords of its lists are contained in the text in that
  sense: required tools, preferred tools and animation skills for the core score;
  project indicators and domain keywords for the experience score; collaboration
  keywords and the team phrases for the collaboration score; remote and deadline
  keywords for the cultural-fit score; education keywords and training phrases for the
  education score. The text the scorers of \<open>evaluate\<close> receive is the lower-cased
  join of CV text, highlights and additional information. Hence a required-tool keyword
  inside any text gives a core score of at least 4, and likewise for the other lists.
  The candidate "Michael" names no tool, yet the core score is 4 and the candidate is not
  rejected for a zero core score: the result is Shortlisted with no rejection reason.
\<close>

theorem substring_keyword_detection:
  "(py_in kw tx \<longleftrightarrow> (\<exists>pre suf. tx = pre @ kw @ suf)) \<and>
   filter (\<lambda>kw. py_in kw tx) kws = matched kws tx \<and>
   fst (score_core_competencies rank tx) =
     min 10 ((if matched REQUIRED_TOOLS tx = [] then 0 else 4)
             + min 2 (of_nat (length (matched PREFERRED_TOOLS tx)) * (5/10))
             + min 4 (of_nat (length (matched ANIMATION_SKILLS tx)) * (6/10))) \<and>
   map_sum id fst (score_experience c tx) =
     (case score_experience_years (years_experience c) of
        None \<Rightarrow> Inl TypeError
      | Some ys \<Rightarrow>
          Inr (min 10 (of_int ys
                 + (if 3 \<le> length (matched project_indicators tx) then 1 else 0)
                 + (if matched DOMAIN_EXPERIENCE tx = [] then 0 else 5/10)))) \<and>
   fst (score_collaboration tx) =
     min 10 (5 + min 3 (of_nat (length (matched COLLABORATION_KEYWORDS tx)) * (4/10))
             + (if (\<exists>pre d suf. is_digit d \<and> tx = pre @ ''team of '' @ d # suf) \<or>
                   matched [''worked with'', ''collaborated'', ''mentored'', ''supervised''] tx \<noteq> []
                then 5/10 else 0)) \<and>
   fst (score_cultural_fit c tx) =
     min 10 (6 + (if english_level c \<noteq> ''Not stated''
                  then (of_int (case map_of ENGLISH_LEVEL_SCORES (english_level c) of
                                  Some v \<Rightarrow> v | None \<Rightarrow> 5) - 5) * (3/10)
                  else 0)
             + (if matched [''remote'', ''flexible'', ''work from home'', ''wfh''] tx = [] then 0 else 5/10)
             + (if matched [''deadline'', ''pressure'', ''fast-paced''] tx = [] then 0 else 5/10)) \<and>
   fst (score_education rank tx) =
     min 10 (5 + min 3 (of_nat (length (matched edu_keywords tx)) * (5/10))
             + (if matched [''animation course'', ''artcraft'', ''motion academy''] tx = [] then 0 else 1)) \<and>
   combine_text c =
     lower (cv_text c @ '' '' @ (if highlights c = ''Not stated'' then [] else highlights c)
              @ '' '' @ additional_info c) \<and>
   (evaluate rank c = Inr r \<longrightarrow>
      dim_score r ''core_competencies'' = Some (fst (score_core_competencies rank (combine_text c))) \<and>
      map_sum id fst (score_experience c (combine_text c)) =
        (case dim_score r ''experience_results'' of None \<Rightarrow> Inl KeyError | Some s \<Rightarrow> Inr s) \<and>
      dim_score r ''collaboration_signals'' = Some (fst (score_collaboration (combine_text c))) \<and>
      dim_score r ''cultural_practical_fit'' = Some (fst (score_cultural_fit c (combine_text c))) \<and>
      dim_score r ''education_other'' = Some (fst (score_education rank (combine_text c)))) \<and>
   (kw \<in> set REQUIRED_TOOLS \<longrightarrow> 4 \<le> fst (score_core_competencies rank (pre @ kw @ suf))) \<and>
   (kw \<in> set COLLABORATION_KEYWORDS \<longrightarrow> 54/10 \<le> fst (score_collaboration (pre @ kw @ suf))) \<and>
   (kw \<in> set edu_keywords \<longrightarrow> 55/10 \<le> fst (score_education rank (pre @ kw @ suf))) \<and>
   combine_text michael_candidate = ''michael  '' \<and>
   filter (\<lambda>kw. py_in kw (combine_text michael_candidate))
     (REQUIRED_TOOLS @ PREFERRED_TOOLS @ ANIMATION_SKILLS) = [''ae''] \<and>
   \<not> re_search False (seqs [WordB, Lit ''ae'', WordB]) (combine_text michael_candidate) \<and>
   \<not> isl (evaluate length michael_candidate) \<and>
   dim_score (projr (evaluate length michael_candidate)) ''core_competencies'' = Some 4 \<and>
   status (projr (evaluate length michael_candidate)) = ''Shortlisted'' \<and>
   rejection_reasons (projr (evaluate length michael_candidate)) = []"
proof -
  have a: "py_in kw tx \<longleftrightarrow> (\<exists>pre suf. tx = pre @ kw @ suf)"
    by (rule py_in_iff)
  have m: "filter (\<lambda>kw. py_in kw tx) kws = matched kws tx"
    by (rule matched_py_in [symmetric])
  note s1 = core_by_containment [of rank tx]
  note s2 = experience_by_containment [of c tx]
  note s3 = collaboration_by_containment [of tx, unfolded team_patterns_by_containment]
  note s4 = cultural_fit_by_containment [of c tx]
  note s5 = education_by_containment [of rank tx]
  note ct = combine_text_eq [of c]
  have ev: "evaluate rank c = Inr r \<longrightarrow>
      dim_score r ''core_competencies'' = Some (fst (score_core_competencies rank (combine_text c))) \<and>
      map_sum id fst (score_experience c (combine_text c)) =
        (case dim_score r ''experience_results'' of None \<Rightarrow> Inl KeyError | Some s \<Rightarrow> Inr s) \<and>
      dim_score r ''collaboration_signals'' = Some (fst (score_collaboration (combine_text c))) \<and>
      dim_score r ''cultural_practical_fit'' = Some (fst (score_cultural_fit c (combine_text c))) \<and>
      dim_score r ''education_other'' = Some (fst (score_education rank (combine_text c)))"
    using evaluate_scores_from_combined_text [of rank c r] by (rule impI)
  have b: "kw \<in> set REQUIRED_TOOLS \<longrightarrow> 4 \<le> fst (score_core_competencies rank (pre @ kw @ suf))"
    using required_tool_scores_four by blast
  have c: "kw \<in> set COLLABORATION_KEYWORDS \<longrightarrow> 54/10 \<le> fst (score_collaboration (pre @ kw @ suf))"
    using collaboration_keyword_scores by blast
  have d: "kw \<in> set edu_keywords \<longrightarrow> 55/10 \<le> fst (score_education rank (pre @ kw @ suf))"
    using education_keyword_scores by blast
  have e1: "\<not> isl (evaluate length michael_candidate)"
    unfolding michael_result by simp
  have e2: "dim_score (projr (evaluate length michael_candidate)) ''core_competencies'' = Some 4"
    unfolding michael_result by (simp add: dim_score_def)
  have e3: "status (projr (evaluate length michael_candidate)) = ''Shortlisted''"
    unfolding michael_result by simp
  have e4: "rejection_reasons (projr (evaluate length michael_candidate)) = []"
    unfolding michael_result by simp
  note m1 = michael_keywords [THEN conjunct1]
  note m2 = michael_keywords [THEN conjunct2, THEN conjunct1]
  note m3 = michael_keywords [THEN conjunct2, THEN conjunct2]
  from a m s1 s2 s3 s4 s5 ct ev b c d m1 m2 m3 e1 e2 e3 e4 show ?thesis by (intro conjI)
qed

lemma michael_matched:
  "filter (\<lambda>kw. py_in kw ''michael'') REQUIRED_TOOLS = [''ae''] \<and>
   filter (\<lambda>kw. py_in kw ''michael'') PREFERRED_TOOLS = [] \<and>
   filter (\<lambda>kw. py_in kw ''michael'') ANIMATION_SKILLS = []"
  by code_simp

theorem substring_keyword_detection_witness:
  "''ae'' \<in> set REQUIRED_TOOLS \<and> ''team'' \<in> set COLLABORATION_KEYWORDS \<and>
   ''course'' \<in> set edu_keywords \<and>
   py_in ''ae'' ''michael'' \<and>
   4 \<le> fst (score_core_competencies length ''michael'') \<and>
   54/10 \<le> fst (score_collaboration ''steam engine'') \<and>
   55/10 \<le> fst (score_education length ''of course not'') \<and>
   fst (score_core_competencies length ''michael'') = 4 \<and>
   evaluate length michael_candidate = Inr (projr (evaluate length michael_candidate)) \<and>
   dim_score (projr (evaluate length michael_candidate)) ''core_competencies''
     = Some (fst (score_core_competencies length (combine_text michael_candidate)))"
proof -
  have h1: "''ae'' \<in> set REQUIRED_TOOLS" by (simp add: REQUIRED_TOOLS_def)
  have h2: "''team'' \<in> set COLLABORATION_KEYWORDS" by (simp add: COLLABORATION_KEYWORDS_def)
  have h3: "''course'' \<in> set edu_keywords" by (simp add: edu_keywords_def)
  have h4: "evaluate length michael_candidate = Inr (projr (evaluate length michael_candidate))"
    unfolding michael_result by simp
  have t1: "''michael'' = ''mich'' @ ''ae'' @ ''l''" by simp
  have t2: "''steam engine'' = ''s'' @ ''team'' @ '' engine''" by simp
  have t3: "''of course not'' = ''of '' @ ''course'' @ '' not''" by simp
  note i1 = substring_keyword_detection [where kw = "''ae''" and tx = "''michael''"
      and rank = length and pre = "''mich''" and suf = "''l''" and c = michael_candidate
      and r = "projr (evaluate length michael_candidate)" and kws = REQUIRED_TOOLS]
  note i2 = substring_keyword_detection [where kw = "''team''" and tx = "''steam engine''"
      and rank = length and pre = "''s''" and suf = "'' engine''" and c = michael_candidate
      and r = "projr (evaluate length michael_candidate)" and kws = COLLABORATION_KEYWORDS]
  note i3 = substring_keyword_detection [where kw = "''course''" and tx = "''of course not''"
      and rank = length and pre = "''of ''" and suf = "'' not''" and c = michael_candidate
      and r = "projr (evaluate length michael_candidate)" and kws = edu_keywords]
  have "py_in ''ae'' ''michael'' \<longleftrightarrow> (\<exists>pre suf. ''michael'' = pre @ ''ae'' @ suf)"
    using i1 by (elim conjE)
  then have p: "py_in ''ae'' ''michael''" using t1 by blast
  have "''ae'' \<in> set REQUIRED_TOOLS \<longrightarrow>
      4 \<le> fst (score_core_competencies length (''mich'' @ ''ae'' @ ''l''))"
    using i1 by (elim conjE)
  then have k: "4 \<le> fst (score_core_competencies length ''michael'')"
    using h1 unfolding t1 by (rule mp)
  have "''team'' \<in> set COLLABORATION_KEYWORDS \<longrightarrow>
      54/10 \<le> fst (score_collaboration (''s'' @ ''team'' @ '' engine''))"
    using i2 by (elim conjE)
  then have l: "54/10 \<le> fst (score_collaboration ''steam engine'')"
    using h2 unfolding t2 by (rule mp)
  have "''course'' \<in> set edu_keywords \<longrightarrow>
      55/10 \<le> fst (score_education length (''of '' @ ''course'' @ '' not''))"
    using i3 by (elim conjE)
  then have d: "55/10 \<le> fst (score_education length ''of course not'')"
    using h3 unfolding t3 by (rule mp)
  have q1: "matched REQUIRED_TOOLS ''michael'' = [''ae'']"
    and q2: "matched PREFERRED_TOOLS ''michael'' = []"
    and q3: "matched ANIMATION_SKILLS ''michael'' = []"
    using michael_matched by (simp_all add: matched_py_in)
  have "fst (score_core_competencies length ''michael'') =
     min 10 ((if matched REQUIRED_TOOLS ''michael'' = [] then 0 else 4)
             + min 2 (of_nat (length (matched PREFERRED_TOOLS ''michael'')) * (5/10))
             + min 4 (of_nat (length (matched ANIMATION_SKILLS ''michael'')) * (6/10)))"
    using i1 by (elim conjE)
  then have four: "fst (score_core_competencies length ''michael'') = 4"
    unfolding q1 q2 q3 by simp
  have "evaluate length michael_candidate = Inr (projr (evaluate length michael_candidate)) \<longrightarrow>
      dim_score (projr (evaluate length michael_candidate)) ''core_competencies''
        = Some (fst (score_core_competencies length (combine_text michael_candidate))) \<and>
      map_sum id fst (score_experience michael_candidate (combine_text michael_candidate)) =
        (case dim_score (projr (evaluate length michael_candidate)) ''experience_results'' of
           None \<Rightarrow> Inl KeyError | Some s \<Rightarrow> Inr s) \<and>
      dim_score (projr (evaluate length michael_candidate)) ''collaboration_signals''
        = Some (fst (score_collaboration (combine_text michael_candidate))) \<and>
      dim_score (projr (evaluate length michael_candidate)) ''cultural_practical_fit''
        = Some (fst (score_cultural_fit michael_candidate (combine_text michael_candidate))) \<and>
      dim_score (projr (evaluate length michael_candidate)) ''education_other''
        = Some (fst (score_education length (combine_text michael_candidate)))"
    using i1 by (elim conjE)
  from this [THEN mp, OF h4, THEN conjunct1]
  have sc: "dim_score (projr (evaluate length michael_candidate)) ''core_competencies''
     = Some (fst (score_core_competencies length (combine_text michael_candidate)))" .
  from h1 h2 h3 p k l d four h4 sc show ?thesis by (intro conjI)
qed

subsection \<open>The score bands\<close>

text \<open>
  C5. The band of a score is decided by inclusive lower bounds without gaps or overlaps:
  85 and above is Strong Fit, from 70 up to but not including 85 is Good Fit, from 60 up
  to but not including 70 is Borderline, anything below 60 is Reject. In particular
  the band of 85 is Strong Fit, of 84.9 and of 70 Good Fit, of 59.9 Reject.
\<close>

theorem get_score_band_thresholds:
  "(85 \<le> s \<longrightarrow> get_score_band s = ''Strong Fit'') \<and>
   (70 \<le> s \<and> s < 85 \<longrightarrow> get_score_band s = ''Good Fit'') \<and>
   (60 \<le> s \<and> s < 70 \<longrightarrow> get_score_band s = ''Borderline'') \<and>
   (s < 60 \<longrightarrow> get_score_band s = ''Reject'') \<and>
   get_score_band 85 = ''Strong Fit'' \<and>
   get_score_band (849/10) = ''Good Fit'' \<and>
   get_score_band 70 = ''Good Fit'' \<and>
   get_score_band (599/10) = ''Reject''"
  by (simp add: get_score_band_def)

theorem get_score_band_thresholds_witness:
  "get_score_band 90 = ''Strong Fit'' \<and> get_score_band 77 = ''Good Fit'' \<and>
   get_score_band 65 = ''Borderline'' \<and> get_score_band 12 = ''Reject''"
  using get_score_band_thresholds [of 90] get_score_band_thresholds [of 77]
    get_score_band_thresholds [of 65] get_score_band_thresholds [of 12]
  by simp

end
